theory Spec2Isabelle
  imports Complex_Main
begin

section \<open>Knowledge-distillation control loop for image classification\<close>

text \<open>
  A shallow embedding of \<^verbatim>\<open>image_classification.py\<close>: the evaluator
  (\<^verbatim>\<open>evaluate\<close>), the per-epoch distillation pass (\<^verbatim>\<open>distill_one_epoch\<close>), the
  training orchestrator (\<^verbatim>\<open>distill\<close>) and the entry point (\<^verbatim>\<open>main\<close>).

  Python floats are modelled as \<^typ>\<open>real\<close>: the scores compared by the orchestrator are
  finite accuracies, and every property below is about control flow and exact sums, not about
  rounding. Python's unbounded integers are \<^typ>\<open>int\<close>. Exceptions are values of the type
  \<open>error\<close>, returned as \<open>Inl\<close>.
\<close>

subsection \<open>Errors\<close>

datatype error =
    NotFoundError
  | AttributeError
  | ZeroDivisionError
  | KeyError
  | CollaboratorError string

subsection \<open>Smoothed metric\<close>

text \<open>
  Modelled from the spec: the class \<^verbatim>\<open>SmoothedValue\<close> of \<^verbatim>\<open>kdkit.misc.log\<close> is
  imported by the source but is not part of it. The spec (sections 3 and 4.1) gives it a
  bounded window of the most recent samples, a running count and a running sum, and says that
  \<^verbatim>\<open>update(value, weight)\<close> adds \<open>weight\<close> to the count and \<open>value * weight\<close> to the
  sum and appends \<open>value\<close> to the window, dropping the oldest entries beyond the capacity.
\<close>

record SmoothedValue =
  window_size :: nat
  deque :: "real list"
  count :: int
  total :: real

definition new_SmoothedValue :: "nat \<Rightarrow> SmoothedValue" where
  "new_SmoothedValue ws = \<lparr>window_size = ws, deque = [], count = 0, total = 0\<rparr>"

text \<open>Modelled from the spec: appending to a bounded window keeps the newest entries.\<close>

definition deque_append :: "nat \<Rightarrow> real list \<Rightarrow> real \<Rightarrow> real list" where
  "deque_append maxlen d v = (let d' = d @ [v] in drop (length d' - maxlen) d')"

text \<open>Modelled from the spec: \<^verbatim>\<open>update(value, weight)\<close> of section 4.1.\<close>

definition sv_update :: "real \<Rightarrow> int \<Rightarrow> SmoothedValue \<Rightarrow> SmoothedValue" where
  "sv_update v n m =
     m\<lparr>deque := deque_append (window_size m) (deque m) v,
       count := count m + n,
       total := total m + v * of_int n\<rparr>"

text \<open>
  Modelled from the spec: \<^verbatim>\<open>global_avg\<close> is the running sum over the running count
  and fails when the count is 0.
\<close>

definition global_avg :: "SmoothedValue \<Rightarrow> error + real" where
  "global_avg m =
     (if count m = 0 then Inl ZeroDivisionError else Inr (total m / of_int (count m)))"

text \<open>A sequence of \<^verbatim>\<open>update\<close> calls, applied in order.\<close>

fun sv_updates :: "(real \<times> int) list \<Rightarrow> SmoothedValue \<Rightarrow> SmoothedValue" where
  "sv_updates [] m = m"
| "sv_updates ((v, n) # calls) m = sv_updates calls (sv_update v n m)"

subsection \<open>Metric registry\<close>

text \<open>
  Modelled from the spec: the class \<^verbatim>\<open>MetricLogger\<close> of \<^verbatim>\<open>kdkit.misc.log\<close> is not
  part of the source. The spec (sections 3 and 4.2) makes it a mapping from metric names to
  smoothed metrics that keeps insertion order, creates a default metric when an unregistered
  name is written, and may fail when an unregistered name is read. The spec leaves the default
  capacity open; no property below depends on the value chosen here.
\<close>

type_synonym MetricLogger = "(string \<times> SmoothedValue) list"

definition default_window_size :: nat where
  "default_window_size = 20"

fun meters_put :: "string \<Rightarrow> SmoothedValue \<Rightarrow> MetricLogger \<Rightarrow> MetricLogger" where
  "meters_put name m [] = [(name, m)]"
| "meters_put name m ((k, x) # ml) =
     (if k = name then (k, m) # ml else (k, x) # meters_put name m ml)"

text \<open>\<^verbatim>\<open>metric_logger.meters[name]\<close>: the metric of that name, or a default one.\<close>

definition meters_item :: "MetricLogger \<Rightarrow> string \<Rightarrow> SmoothedValue" where
  "meters_item ml name =
     (case map_of ml name of None \<Rightarrow> new_SmoothedValue default_window_size | Some m \<Rightarrow> m)"

text \<open>\<^verbatim>\<open>metric_logger.meters[name].update(value, n=n)\<close>.\<close>

definition meters_update :: "string \<Rightarrow> real \<Rightarrow> int \<Rightarrow> MetricLogger \<Rightarrow> MetricLogger" where
  "meters_update name v n ml = meters_put name (sv_update v n (meters_item ml name)) ml"

text \<open>\<^verbatim>\<open>metric_logger.<name>\<close>: reading a metric that was never created fails.\<close>

definition meter_attr :: "MetricLogger \<Rightarrow> string \<Rightarrow> error + SmoothedValue" where
  "meter_attr ml name = (case map_of ml name of None \<Rightarrow> Inl AttributeError | Some m \<Rightarrow> Inr m)"

text \<open>
  Modelled from the spec: \<^verbatim>\<open>log_every\<close> yields each element of its input unchanged, once;
  the progress reports it emits do not affect the returned values.
\<close>

definition log_every :: "'a list \<Rightarrow> 'a list" where
  "log_every data_loader = data_loader"

subsection \<open>Devices, modules and parallel wrappers\<close>

record device =
  dev_type :: string
  dev_index :: "int option"

definition startswith :: "string \<Rightarrow> string \<Rightarrow> bool" where
  "startswith s prefix = (take (length prefix) s = prefix)"

type_synonym 't state_dict = "(string \<times> 't) list"

text \<open>
  A module object: its parameters, its training flag and the device its parameters are on.
  Module objects are mutated in place and shared between the caller, the parallel wrappers and
  the distillation collaborator, so they live in a store indexed by object identity.
\<close>

record 't module =
  params :: "'t state_dict"
  training :: bool
  on_device :: device

text \<open>
  A model reference: a module of the store, or a parallel wrapper around a model
  (\<^verbatim>\<open>torch.nn.DataParallel\<close>, \<^verbatim>\<open>torch.nn.parallel.DistributedDataParallel\<close>) with
  its device ids. A wrapper holds the wrapped model in its attribute \<^verbatim>\<open>module\<close>.
\<close>

datatype model =
    Module nat
  | DataParallel model "int list"
  | DistributedDataParallel model "int list"

text \<open>\<^verbatim>\<open>module_util.check_if_wrapped\<close>: is the model one of the two parallel wrappers?\<close>

fun check_if_wrapped :: "model \<Rightarrow> bool" where
  "check_if_wrapped (Module i) = False"
| "check_if_wrapped (DataParallel m ids) = True"
| "check_if_wrapped (DistributedDataParallel m ids) = True"

text \<open>The module that the wrappers of a model lead to.\<close>

fun base_module :: "model \<Rightarrow> nat" where
  "base_module (Module i) = i"
| "base_module (DataParallel m ids) = base_module m"
| "base_module (DistributedDataParallel m ids) = base_module m"

subsection \<open>Checkpoints and the state of the process\<close>

text \<open>Only the configuration keys and run arguments that the code reads are kept.\<close>

record model_config =
  model_name :: string
  ckpt :: string

record config =
  teacher_model :: model_config
  student_model :: model_config
  log_freq :: nat

record args =
  start_epoch :: int
  sync_bn :: bool
  test_only :: bool
  student_only :: bool

record 't ckpt_record =
  ckpt_model :: "'t state_dict"
  ckpt_optimizer :: "'t state_dict"
  ckpt_lr_scheduler :: "'t state_dict"
  best_value :: real
  ckpt_config :: config
  ckpt_args :: args

text \<open>
  What the code and its collaborators read and change: the module store, the state of the
  collaborator's optimizer and learning-rate scheduler, the files at checkpoint paths and the
  global thread count of torch.
\<close>

record 't world =
  modules :: "nat \<Rightarrow> 't module"
  optimizer :: "'t state_dict"
  lr_scheduler :: "'t state_dict"
  files :: "string \<rightharpoonup> 't ckpt_record"
  num_threads :: int

text \<open>\<^verbatim>\<open>model.to(device)\<close> moves the parameters of the underlying module.\<close>

definition model_to :: "model \<Rightarrow> device \<Rightarrow> 't world \<Rightarrow> 't world" where
  "model_to m dev w =
     w\<lparr>modules := (modules w)(base_module m := (modules w (base_module m))\<lparr>on_device := dev\<rparr>)\<rparr>"

text \<open>
  \<^verbatim>\<open>model.eval()\<close> clears the training flag of the model and, through the attribute
  \<^verbatim>\<open>module\<close> of every wrapper, of the underlying module.
\<close>

definition model_eval :: "model \<Rightarrow> 't world \<Rightarrow> 't world" where
  "model_eval m w =
     w\<lparr>modules := (modules w)(base_module m := (modules w (base_module m))\<lparr>training := False\<rparr>)\<rparr>"

text \<open>
  \<^verbatim>\<open>model.state_dict()\<close>: the parameters of the underlying module; every wrapper
  prefixes the keys with \<^verbatim>\<open>module.\<close>.
\<close>

fun state_dict :: "model \<Rightarrow> 't world \<Rightarrow> 't state_dict" where
  "state_dict (Module i) w = params (modules w i)"
| "state_dict (DataParallel m ids) w = map (\<lambda>(k, v). (''module.'' @ k, v)) (state_dict m w)"
| "state_dict (DistributedDataParallel m ids) w =
     map (\<lambda>(k, v). (''module.'' @ k, v)) (state_dict m w)"

subsection \<open>The distillation collaborator\<close>

text \<open>
  The distillation box is built outside the source (\<^verbatim>\<open>get_distillation_box\<close>); the code
  uses the attributes and methods below. Its optimizer and learning-rate scheduler are the
  ones of the state. Every method may change the state and may raise.
\<close>

record 't distillation_box =
  num_epochs :: int
  train_data_loader :: "('t \<times> 't \<times> 't state_dict) list"
  val_data_loader :: "('t \<times> 't) list"
  pre_process :: "int \<Rightarrow> 't world \<Rightarrow> error + 't world"
  post_process :: "'t world \<Rightarrow> error + 't world"
  clean_modules :: "'t world \<Rightarrow> error + 't world"
  box_call :: "'t \<Rightarrow> 't \<Rightarrow> 't state_dict \<Rightarrow> 't world \<Rightarrow> error + ('t \<times> 't world)"
  update_params :: "'t \<Rightarrow> 't world \<Rightarrow> error + 't world"

subsection \<open>The process context and the external operations\<close>

text \<open>
  Modelled from the spec: \<^verbatim>\<open>main_util.is_main_process\<close> is not part of the source.
  Section 4.3 of the spec: it is true iff the rank is 0 or the process is not distributed.
  The context is fixed for the lifetime of the process.
\<close>

record dist_context =
  dist_initialized :: bool
  rank :: nat

definition is_main_process :: "dist_context \<Rightarrow> bool" where
  "is_main_process ctx = (\<not> dist_initialized ctx \<or> rank ctx = 0)"

text \<open>
  The operations that the code calls and does not define: the forward pass of a model on a
  batch (\<^verbatim>\<open>model(image)\<close>), \<^verbatim>\<open>compute_accuracy\<close> with \<^verbatim>\<open>topk=(1, 5)\<close>, the size of a
  batch (\<^verbatim>\<open>image.shape[0]\<close>), the all-reduce sum of a metric's count and total over the
  other processes, the constructor of the distillation box (from the teacher, the student, the
  device, the device ids and the distributed flag; the datasets and the training configuration
  are fixed in it), the official model lookup and the four model dictionaries that
  \<^verbatim>\<open>kdkit/models/__init__.py\<close> merges. They are parameters of the model.
\<close>

type_synonym 't model_builder = "model_config \<Rightarrow> 't world \<Rightarrow> error + (model \<times> 't world)"

record 't externals =
  forward :: "model \<Rightarrow> 't world \<Rightarrow> 't \<Rightarrow> error + 't"
  compute_accuracy :: "'t \<Rightarrow> 't \<Rightarrow> error + (real \<times> real)"
  batch_size :: "'t \<Rightarrow> int"
  all_reduce :: "'t world \<Rightarrow> string \<Rightarrow> int \<times> real \<Rightarrow> int \<times> real"
  get_distillation_box :: "model \<Rightarrow> model \<Rightarrow> device \<Rightarrow> int list \<Rightarrow> bool \<Rightarrow> 't distillation_box"
  get_image_classification_model ::
    "model_config \<Rightarrow> bool \<Rightarrow> bool \<Rightarrow> 't world \<Rightarrow> (model \<times> 't world) option"
  ADAPTATION_CLASS_DICT :: "string \<rightharpoonup> 't model_builder"
  SPECIAL_CLASS_DICT :: "string \<rightharpoonup> 't model_builder"
  CUSTOM_MODEL_CLASS_DICT :: "string \<rightharpoonup> 't model_builder"
  CUSTOM_MODEL_FUNC_DICT :: "string \<rightharpoonup> 't model_builder"

text \<open>
  \<^verbatim>\<open>kdkit/models/__init__.py\<close>: the dictionary is updated with the four dictionaries in
  this order, so a later one wins on a shared name.
\<close>

definition MODEL_DICT :: "'t externals \<Rightarrow> string \<rightharpoonup> 't model_builder" where
  "MODEL_DICT ex =
     Map.empty ++ ADAPTATION_CLASS_DICT ex ++ SPECIAL_CLASS_DICT ex
       ++ CUSTOM_MODEL_CLASS_DICT ex ++ CUSTOM_MODEL_FUNC_DICT ex"

text \<open>
  Modelled from the spec: \<^verbatim>\<open>synchronize_between_processes\<close> replaces the count and
  total of every registered metric by the all-reduce sum over all processes, and is a no-op
  when the process is not distributed (section 4.2 and 4.3).
\<close>

definition synchronize_between_processes ::
  "'t externals \<Rightarrow> dist_context \<Rightarrow> 't world \<Rightarrow> MetricLogger \<Rightarrow> MetricLogger" where
  "synchronize_between_processes ex ctx w ml =
     (if \<not> dist_initialized ctx then ml
      else map (\<lambda>(name, m).
                 (name, (case all_reduce ex w name (count m, total m) of
                           (c, t) \<Rightarrow> m\<lparr>count := c, total := t\<rparr>))) ml)"

subsection \<open>The evaluator\<close>

text \<open>
  Lines 70 to 73 of \<^verbatim>\<open>evaluate\<close>: the model that the evaluation runs, a
  \<^verbatim>\<open>DistributedDataParallel\<close> wrapper when \<open>distributed\<close>, else a \<^verbatim>\<open>DataParallel\<close>
  wrapper when the type of the device starts with \<^verbatim>\<open>cuda\<close>, else the model itself.
\<close>

definition evaluate_wrap :: "model \<Rightarrow> device \<Rightarrow> int list \<Rightarrow> bool \<Rightarrow> model" where
  "evaluate_wrap m dev device_ids distributed =
     (if distributed then DistributedDataParallel m device_ids
      else if startswith (dev_type dev) ''cuda'' then DataParallel m device_ids
      else m)"

text \<open>
  The loop of \<^verbatim>\<open>evaluate\<close> over the batches of the data loader. Moving a batch to the
  device does not change its value. An exception of the forward pass or of
  \<^verbatim>\<open>compute_accuracy\<close> ends the loop.
\<close>

fun evaluate_batches ::
  "'t externals \<Rightarrow> model \<Rightarrow> 't world \<Rightarrow> ('t \<times> 't) list \<Rightarrow> MetricLogger \<Rightarrow> error + MetricLogger"
  where
  "evaluate_batches ex m w [] metric_logger = Inr metric_logger"
| "evaluate_batches ex m w ((img, target) # rest) metric_logger =
     (case forward ex m w img of
        Inl e \<Rightarrow> Inl e
      | Inr output \<Rightarrow>
          (case compute_accuracy ex output target of
             Inl e \<Rightarrow> Inl e
           | Inr (acc1, acc5) \<Rightarrow>
               evaluate_batches ex m w rest
                 (meters_update ''acc5'' acc5 (batch_size ex img)
                   (meters_update ''acc1'' acc1 (batch_size ex img) metric_logger))))"

text \<open>
  \<^verbatim>\<open>evaluate\<close>. The title, the header and the log frequency only reach the logging sink
  and are left out; \<^verbatim>\<open>torch.no_grad\<close> does not change any value computed here. The result
  is the top-1 global average and the state in which the call returns.
\<close>

definition evaluate ::
  "'t externals \<Rightarrow> dist_context \<Rightarrow> model \<Rightarrow> ('t \<times> 't) list \<Rightarrow> device \<Rightarrow> int list \<Rightarrow> bool \<Rightarrow>
     't world \<Rightarrow> error + (real \<times> 't world)" where
  "evaluate ex ctx m data_loader dev device_ids distributed w =
     (let w1 = model_to m dev w;
          m' = evaluate_wrap m dev device_ids distributed;
          saved_num_threads = num_threads w1;
          w2 = w1\<lparr>num_threads := 1\<rparr>;
          w3 = model_eval m' w2
      in case evaluate_batches ex m' w3 (log_every data_loader) [] of
           Inl e \<Rightarrow> Inl e
         | Inr metric_logger \<Rightarrow>
             (let synced = synchronize_between_processes ex ctx w3 metric_logger
              in case meter_attr synced ''acc1'' of
                   Inl e \<Rightarrow> Inl e
                 | Inr acc1_meter \<Rightarrow>
                     (case global_avg acc1_meter of
                        Inl e \<Rightarrow> Inl e
                      | Inr top1_accuracy \<Rightarrow>
                          (case meter_attr synced ''acc5'' of
                             Inl e \<Rightarrow> Inl e
                           | Inr acc5_meter \<Rightarrow>
                               (case global_avg acc5_meter of
                                  Inl e \<Rightarrow> Inl e
                                | Inr top5_accuracy \<Rightarrow>
                                    Inr (top1_accuracy, w3\<lparr>num_threads := saved_num_threads\<rparr>))))))"

subsection \<open>The checkpoint store\<close>

text \<open>\<^verbatim>\<open>file_util.check_if_exists\<close>: is there a file at the path?\<close>

definition check_if_exists :: "string \<Rightarrow> 't world \<Rightarrow> bool" where
  "check_if_exists path w = (files w path \<noteq> None)"

text \<open>
  \<^verbatim>\<open>load_state_dict\<close>: a module takes the stored parameters; a wrapper hands the entries
  under its prefix \<^verbatim>\<open>module.\<close> to the model it wraps.
\<close>

fun load_state_dict :: "model \<Rightarrow> 't state_dict \<Rightarrow> 't world \<Rightarrow> 't world" where
  "load_state_dict (Module i) sd w =
     w\<lparr>modules := (modules w)(i := (modules w i)\<lparr>params := sd\<rparr>)\<rparr>"
| "load_state_dict (DataParallel m ids) sd w =
     load_state_dict m
       (map (\<lambda>(k, v). (drop (length ''module.'') k, v))
          (filter (\<lambda>(k, v). startswith k ''module.'') sd)) w"
| "load_state_dict (DistributedDataParallel m ids) sd w =
     load_state_dict m
       (map (\<lambda>(k, v). (drop (length ''module.'') k, v))
          (filter (\<lambda>(k, v). startswith k ''module.'') sd)) w"

text \<open>
  Modelled from the spec: \<^verbatim>\<open>load_ckpt\<close> of \<^verbatim>\<open>kdkit.common.main_util\<close> is not part of
  the source. Section 4.4 of the spec: loading fails with \<open>NotFoundError\<close> when there is no
  file at the path; otherwise it returns the best score, the model state and the optimizer
  state of the record, and (section 4.6) restores the states into the objects it is given: the
  model when one is passed, the collaborator's optimizer and learning-rate scheduler when they
  are passed. The spec gives the argument \<^verbatim>\<open>strict\<close> no effect of its own.
\<close>

definition load_ckpt ::
  "string \<Rightarrow> model option \<Rightarrow> bool \<Rightarrow> bool \<Rightarrow> bool option \<Rightarrow> 't world \<Rightarrow>
     error + ((real \<times> 't state_dict \<times> 't state_dict) \<times> 't world)" where
  "load_ckpt ckpt_file_path model_arg with_optimizer with_lr_scheduler strict w =
     (case files w ckpt_file_path of
        None \<Rightarrow> Inl NotFoundError
      | Some c \<Rightarrow>
          (let w1 = (case model_arg of None \<Rightarrow> w | Some m \<Rightarrow> load_state_dict m (ckpt_model c) w);
               w2 = (if with_optimizer then w1\<lparr>optimizer := ckpt_optimizer c\<rparr> else w1);
               w3 = (if with_lr_scheduler then w2\<lparr>lr_scheduler := ckpt_lr_scheduler c\<rparr> else w2)
           in Inr ((best_value c, ckpt_model c, ckpt_optimizer c), w3)))"

text \<open>
  Modelled from the spec: \<^verbatim>\<open>save_ckpt\<close> of \<^verbatim>\<open>kdkit.common.main_util\<close> is not part of
  the source. Section 4.4 of the spec: it writes the bundle of the model state, the optimizer
  state, the scheduler state, the best score, the configuration and the run arguments to the
  path.
\<close>

definition save_ckpt ::
  "model \<Rightarrow> real \<Rightarrow> config \<Rightarrow> args \<Rightarrow> string \<Rightarrow> 't world \<Rightarrow> 't world" where
  "save_ckpt m best cfg a ckpt_file_path w =
     w\<lparr>files := (files w)(ckpt_file_path \<mapsto>
          \<lparr>ckpt_model = state_dict m w, ckpt_optimizer = optimizer w,
           ckpt_lr_scheduler = lr_scheduler w, best_value = best,
           ckpt_config = cfg, ckpt_args = a\<rparr>)\<rparr>"

subsection \<open>One distillation pass\<close>

text \<open>
  The loop of \<^verbatim>\<open>distill_one_epoch\<close>: for every batch the collaborator computes the loss
  and applies its parameter update. The metric logger of this function (loss, learning rate,
  images per second) only feeds the progress reports and is left out.
\<close>

fun distill_batches ::
  "'t distillation_box \<Rightarrow> ('t \<times> 't \<times> 't state_dict) list \<Rightarrow> 't world \<Rightarrow> error + 't world" where
  "distill_batches box [] w = Inr w"
| "distill_batches box ((sample_batch, targets, supp_dict) # rest) w =
     (case box_call box sample_batch targets supp_dict w of
        Inl e \<Rightarrow> Inl e
      | Inr (loss, w1) \<Rightarrow>
          (case update_params box loss w1 of
             Inl e \<Rightarrow> Inl e
           | Inr w2 \<Rightarrow> distill_batches box rest w2))"

definition distill_one_epoch ::
  "'t distillation_box \<Rightarrow> device \<Rightarrow> int \<Rightarrow> nat \<Rightarrow> 't world \<Rightarrow> error + 't world" where
  "distill_one_epoch box dev epoch freq w =
     distill_batches box (log_every (train_data_loader box)) w"

subsection \<open>The training orchestrator\<close>

text \<open>
  The calls that the orchestrator completes, in the order in which it completes them. A call
  that raises ends the run and is not recorded. \<open>Evaluate\<close> carries the model evaluated and
  the score returned, \<open>SaveCkpt\<close> the model whose state is saved, the best score and the
  path, \<open>LoadCkpt\<close> the path and the argument \<^verbatim>\<open>strict\<close>.
\<close>

datatype event =
    LoadCkpt string "bool option"
  | PreProcess int
  | DistillOneEpoch int
  | Evaluate model real
  | SaveCkpt model real string
  | PostProcess
  | Barrier
  | CleanModules

text \<open>\<^verbatim>\<open>range(start, stop)\<close> on Python integers.\<close>

definition py_range :: "int \<Rightarrow> int \<Rightarrow> int list" where
  "py_range start stop = [start..stop - 1]"

text \<open>
  Line 114 (and lines 157 to 158 of \<^verbatim>\<open>main\<close>):
  \<^verbatim>\<open>student_model.module if check_if_wrapped(student_model) else student_model\<close>.
\<close>

fun student_model_without_ddp :: "model \<Rightarrow> model" where
  "student_model_without_ddp (Module i) = Module i"
| "student_model_without_ddp (DataParallel m ids) = m"
| "student_model_without_ddp (DistributedDataParallel m ids) = m"

text \<open>
  Lines 108 to 111 of \<^verbatim>\<open>distill\<close>: the best score at the start of the run, and the state
  after the checkpoint, if there is one, has been loaded into the collaborator's optimizer and
  learning-rate scheduler.
\<close>

definition distill_resume ::
  "string \<Rightarrow> 't world \<Rightarrow> event list \<times> (error + (real \<times> 't world))" where
  "distill_resume ckpt_file_path w =
     (if check_if_exists ckpt_file_path w then
        (case load_ckpt ckpt_file_path None True True None w of
           Inl e \<Rightarrow> ([], Inl e)
         | Inr ((best, _, _), w1) \<Rightarrow> ([LoadCkpt ckpt_file_path None], Inr (best, w1)))
      else ([], Inr (0, w)))"

text \<open>
  The body of the loop of \<^verbatim>\<open>distill\<close> (lines 117 to 127) for one epoch. The result is
  the record of the calls completed so far, with either the exception that ended the run or
  the best score and the state after the epoch.
\<close>

definition distill_epoch ::
  "'t externals \<Rightarrow> dist_context \<Rightarrow> 't distillation_box \<Rightarrow> model \<Rightarrow> device \<Rightarrow> int list \<Rightarrow> bool \<Rightarrow>
     config \<Rightarrow> args \<Rightarrow> int \<Rightarrow> real \<Rightarrow> 't world \<Rightarrow> event list \<Rightarrow>
     event list \<times> (error + (real \<times> 't world))" where
  "distill_epoch ex ctx box sm dev device_ids distributed cfg a epoch best w tr =
     (case pre_process box epoch w of
        Inl e \<Rightarrow> (tr, Inl e)
      | Inr w1 \<Rightarrow>
     (case distill_one_epoch box dev epoch (log_freq cfg) w1 of
        Inl e \<Rightarrow> (tr @ [PreProcess epoch], Inl e)
      | Inr w2 \<Rightarrow>
     (case evaluate ex ctx sm (val_data_loader box) dev device_ids distributed w2 of
        Inl e \<Rightarrow> (tr @ [PreProcess epoch, DistillOneEpoch epoch], Inl e)
      | Inr (val_top1_accuracy, w3) \<Rightarrow>
     (let tr3 = tr @ [PreProcess epoch, DistillOneEpoch epoch, Evaluate sm val_top1_accuracy];
          (best', w4, tr4) =
            (if val_top1_accuracy > best \<and> is_main_process ctx then
               (val_top1_accuracy,
                save_ckpt (student_model_without_ddp sm) val_top1_accuracy cfg a
                  (ckpt (student_model cfg)) w3,
                tr3 @ [SaveCkpt (student_model_without_ddp sm) val_top1_accuracy
                         (ckpt (student_model cfg))])
             else (best, w3, tr3))
      in case post_process box w4 of
           Inl e \<Rightarrow> (tr4, Inl e)
         | Inr w5 \<Rightarrow> (tr4 @ [PostProcess], Inr (best', w5))))))"

text \<open>
  The loop of lines 116 to 127 over the epochs of the range: an exception ends it, otherwise
  the next epoch starts from the best score and the state that the epoch before it left.
\<close>

fun distill_epochs ::
  "'t externals \<Rightarrow> dist_context \<Rightarrow> 't distillation_box \<Rightarrow> model \<Rightarrow> device \<Rightarrow> int list \<Rightarrow> bool \<Rightarrow>
     config \<Rightarrow> args \<Rightarrow> int list \<Rightarrow> real \<Rightarrow> 't world \<Rightarrow> event list \<Rightarrow>
     event list \<times> (error + (real \<times> 't world))" where
  "distill_epochs ex ctx box sm dev device_ids distributed cfg a [] best w tr =
     (tr, Inr (best, w))"
| "distill_epochs ex ctx box sm dev device_ids distributed cfg a (epoch # rest) best w tr =
     (case distill_epoch ex ctx box sm dev device_ids distributed cfg a epoch best w tr of
        (tr1, Inl e) \<Rightarrow> (tr1, Inl e)
      | (tr1, Inr (best1, w1)) \<Rightarrow>
          distill_epochs ex ctx box sm dev device_ids distributed cfg a rest best1 w1 tr1)"

text \<open>
  Lines 113 to 135 of \<^verbatim>\<open>distill\<close>: the epochs from \<open>start_epoch\<close>, the barrier of a
  distributed run (which waits for the other processes and changes nothing here) and the
  collaborator's cleanup.
\<close>

definition distill_training ::
  "'t externals \<Rightarrow> dist_context \<Rightarrow> 't distillation_box \<Rightarrow> model \<Rightarrow> device \<Rightarrow> int list \<Rightarrow> bool \<Rightarrow>
     int \<Rightarrow> config \<Rightarrow> args \<Rightarrow> real \<Rightarrow> 't world \<Rightarrow> event list \<times> (error + 't world)" where
  "distill_training ex ctx box sm dev device_ids distributed start cfg a best w =
     (case distill_epochs ex ctx box sm dev device_ids distributed cfg a
             (py_range start (num_epochs box)) best w [] of
        (tr, Inl e) \<Rightarrow> (tr, Inl e)
      | (tr, Inr (best', w1)) \<Rightarrow>
          (let tr1 = (if distributed then tr @ [Barrier] else tr)
           in case clean_modules box w1 of
                Inl e \<Rightarrow> (tr1, Inl e)
              | Inr w2 \<Rightarrow> (tr1 @ [CleanModules], Inr w2)))"

text \<open>
  \<^verbatim>\<open>distill\<close>. The datasets and the training configuration only reach the constructor of
  the distillation box.
\<close>

definition distill ::
  "'t externals \<Rightarrow> dist_context \<Rightarrow> model \<Rightarrow> model \<Rightarrow> device \<Rightarrow> int list \<Rightarrow> bool \<Rightarrow>
     int \<Rightarrow> config \<Rightarrow> args \<Rightarrow> 't world \<Rightarrow> event list \<times> (error + 't world)" where
  "distill ex ctx teacher sm dev device_ids distributed start cfg a w =
     (let distillation_box = get_distillation_box ex teacher sm dev device_ids distributed
      in case distill_resume (ckpt (student_model cfg)) w of
           (tr0, Inl e) \<Rightarrow> (tr0, Inl e)
         | (tr0, Inr (best_val_top1_accuracy, w0)) \<Rightarrow>
             (case distill_training ex ctx distillation_box sm dev device_ids distributed
                     start cfg a best_val_top1_accuracy w0 of
                (tr, r) \<Rightarrow> (tr0 @ tr, r)))"

subsection \<open>The entry point\<close>

text \<open>
  \<^verbatim>\<open>get_model\<close>: the official model if there is one, else the constructor registered
  under the configured name; then the checkpoint of the configuration is loaded into the model
  with \<^verbatim>\<open>strict=True\<close> and the model is moved to the device.
\<close>

definition get_model ::
  "'t externals \<Rightarrow> model_config \<Rightarrow> device \<Rightarrow> bool \<Rightarrow> bool \<Rightarrow> 't world \<Rightarrow>
     event list \<times> (error + (model \<times> 't world))" where
  "get_model ex mc dev distributed sync w =
     (case (case get_image_classification_model ex mc distributed sync w of
              Some (m, w1) \<Rightarrow> Inr (m, w1)
            | None \<Rightarrow>
                (case MODEL_DICT ex (model_name mc) of
                   None \<Rightarrow> Inl KeyError
                 | Some builder \<Rightarrow> builder mc w)) of
        Inl e \<Rightarrow> ([], Inl e)
      | Inr (m, w1) \<Rightarrow>
          (case load_ckpt (ckpt mc) (Some m) False False (Some True) w1 of
             Inl e \<Rightarrow> ([], Inl e)
           | Inr (_, w2) \<Rightarrow> ([LoadCkpt (ckpt mc) (Some True)], Inr (m, model_to m dev w2))))"

text \<open>
  Lines 156 to 159 of \<^verbatim>\<open>main\<close>, the branch taken unless \<^verbatim>\<open>-test_only\<close> is given:
  the distillation run, then the reload of the student checkpoint into the unwrapped student
  model with \<^verbatim>\<open>strict=True\<close>.
\<close>

definition main_distill_and_reload ::
  "'t externals \<Rightarrow> dist_context \<Rightarrow> model \<Rightarrow> model \<Rightarrow> device \<Rightarrow> int list \<Rightarrow> bool \<Rightarrow>
     config \<Rightarrow> args \<Rightarrow> 't world \<Rightarrow> event list \<times> (error + 't world)" where
  "main_distill_and_reload ex ctx teacher sm dev device_ids distributed cfg a w =
     (case distill ex ctx teacher sm dev device_ids distributed (start_epoch a) cfg a w of
        (tr, Inl e) \<Rightarrow> (tr, Inl e)
      | (tr, Inr w1) \<Rightarrow>
          (case load_ckpt (ckpt (student_model cfg)) (Some (student_model_without_ddp sm))
                  False False (Some True) w1 of
             Inl e \<Rightarrow> (tr, Inl e)
           | Inr (_, w2) \<Rightarrow> (tr @ [LoadCkpt (ckpt (student_model cfg)) (Some True)], Inr w2)))"

text \<open>
  \<^verbatim>\<open>main\<close>, from line 150. The distributed flag, the device ids, the configuration, the
  device and the test data loader come from the set-up calls of lines 139 to 149 and 161 to
  164 and are parameters here.
\<close>

definition main ::
  "'t externals \<Rightarrow> dist_context \<Rightarrow> args \<Rightarrow> config \<Rightarrow> device \<Rightarrow> int list \<Rightarrow> bool \<Rightarrow>
     ('t \<times> 't) list \<Rightarrow> 't world \<Rightarrow> event list \<times> (error + 't world)" where
  "main ex ctx a cfg dev device_ids distributed test_data_loader w =
     (case get_model ex (teacher_model cfg) dev distributed False w of
        (tr1, Inl e) \<Rightarrow> (tr1, Inl e)
      | (tr1, Inr (teacher, w1)) \<Rightarrow>
     (case get_model ex (student_model cfg) dev distributed (sync_bn a) w1 of
        (tr2, Inl e) \<Rightarrow> (tr1 @ tr2, Inl e)
      | (tr2, Inr (student, w2)) \<Rightarrow>
     (case (if \<not> test_only a
            then main_distill_and_reload ex ctx teacher student dev device_ids distributed cfg a w2
            else ([], Inr w2)) of
        (tr3, Inl e) \<Rightarrow> (tr1 @ tr2 @ tr3, Inl e)
      | (tr3, Inr w3) \<Rightarrow>
     (case (if \<not> student_only a
            then (case evaluate ex ctx teacher test_data_loader dev device_ids distributed w3 of
                    Inl e \<Rightarrow> ([], Inl e)
                  | Inr (score, w4) \<Rightarrow> ([Evaluate teacher score], Inr w4))
            else ([], Inr w3)) of
        (tr4, Inl e) \<Rightarrow> (tr1 @ tr2 @ tr3 @ tr4, Inl e)
      | (tr4, Inr w4) \<Rightarrow>
     (case evaluate ex ctx student test_data_loader dev device_ids distributed w4 of
        Inl e \<Rightarrow> (tr1 @ tr2 @ tr3 @ tr4, Inl e)
      | Inr (score, w5) \<Rightarrow> (tr1 @ tr2 @ tr3 @ tr4 @ [Evaluate student score], Inr w5))))))"

subsection \<open>Reading the record of calls\<close>

fun is_SaveCkpt :: "event \<Rightarrow> bool" where
  "is_SaveCkpt (SaveCkpt m best path) = True"
| "is_SaveCkpt ev = False"

fun saved_model :: "event \<Rightarrow> model option" where
  "saved_model (SaveCkpt m best path) = Some m"
| "saved_model ev = None"

text \<open>
  For every completed evaluation of the record, in order: the score it returned and whether
  the call completed next is a checkpoint write.
\<close>

fun epoch_results :: "event list \<Rightarrow> (real \<times> bool) list" where
  "epoch_results [] = []"
| "epoch_results [Evaluate m v] = [(v, False)]"
| "epoch_results (Evaluate m v # ev # tr) =
     (if is_SaveCkpt ev then (v, True) # epoch_results tr
      else (v, False) # epoch_results (ev # tr))"
| "epoch_results (ev # tr) = epoch_results tr"

text \<open>
  What a recorded call does to the state when \<^verbatim>\<open>distill\<close> makes it: the call of the
  collaborator, of \<^verbatim>\<open>evaluate\<close> on the validation data (which must return the recorded
  score), of \<^verbatim>\<open>save_ckpt\<close> with the configuration and the run arguments, or of
  \<^verbatim>\<open>load_ckpt\<close> with the collaborator's optimizer and scheduler. The barrier leaves the
  state of the process as it is.
\<close>

fun replay_call ::
  "'t externals \<Rightarrow> dist_context \<Rightarrow> 't distillation_box \<Rightarrow> device \<Rightarrow> int list \<Rightarrow> bool \<Rightarrow>
     config \<Rightarrow> args \<Rightarrow> event \<Rightarrow> 't world \<Rightarrow> error + 't world" where
  "replay_call ex ctx box dev device_ids distributed cfg a (LoadCkpt path strict) w =
     (case load_ckpt path None True True strict w of
        Inl e \<Rightarrow> Inl e
      | Inr (_, w1) \<Rightarrow> Inr w1)"
| "replay_call ex ctx box dev device_ids distributed cfg a (PreProcess epoch) w =
     pre_process box epoch w"
| "replay_call ex ctx box dev device_ids distributed cfg a (DistillOneEpoch epoch) w =
     distill_one_epoch box dev epoch (log_freq cfg) w"
| "replay_call ex ctx box dev device_ids distributed cfg a (Evaluate m score) w =
     (case evaluate ex ctx m (val_data_loader box) dev device_ids distributed w of
        Inl e \<Rightarrow> Inl e
      | Inr (score', w1) \<Rightarrow>
          (if score' = score then Inr w1 else Inl (CollaboratorError ''score'')))"
| "replay_call ex ctx box dev device_ids distributed cfg a (SaveCkpt m best path) w =
     Inr (save_ckpt m best cfg a path w)"
| "replay_call ex ctx box dev device_ids distributed cfg a PostProcess w = post_process box w"
| "replay_call ex ctx box dev device_ids distributed cfg a Barrier w = Inr w"
| "replay_call ex ctx box dev device_ids distributed cfg a CleanModules w = clean_modules box w"

text \<open>The recorded calls made one after the other, from a given state.\<close>

fun replay ::
  "'t externals \<Rightarrow> dist_context \<Rightarrow> 't distillation_box \<Rightarrow> device \<Rightarrow> int list \<Rightarrow> bool \<Rightarrow>
     config \<Rightarrow> args \<Rightarrow> event list \<Rightarrow> 't world \<Rightarrow> error + 't world" where
  "replay ex ctx box dev device_ids distributed cfg a [] w = Inr w"
| "replay ex ctx box dev device_ids distributed cfg a (ev # tr) w =
     (case replay_call ex ctx box dev device_ids distributed cfg a ev w of
        Inl e \<Rightarrow> Inl e
      | Inr w1 \<Rightarrow> replay ex ctx box dev device_ids distributed cfg a tr w1)"

text \<open>The state, or the exception, of a result of the loop of \<^verbatim>\<open>distill\<close>.\<close>

fun result_state :: "error + (real \<times> 't world) \<Rightarrow> error + 't world" where
  "result_state (Inl e) = Inl e"
| "result_state (Inr (best, w)) = Inr w"

text \<open>
  A record of calls explains an outcome from a state when making the recorded calls one after
  the other from that state succeeds and leads to a state that is the returned one, or at
  which a further call raises the exception that ended the run.
\<close>

definition explains ::
  "'t externals \<Rightarrow> dist_context \<Rightarrow> 't distillation_box \<Rightarrow> device \<Rightarrow> int list \<Rightarrow> bool \<Rightarrow>
     config \<Rightarrow> args \<Rightarrow> event list \<Rightarrow> 't world \<Rightarrow> (error + 't world) \<Rightarrow> bool" where
  "explains ex ctx box dev ids distr cfg a evs w r =
     (\<exists>w1. replay ex ctx box dev ids distr cfg a evs w = Inr w1 \<and>
        (case r of Inr w' \<Rightarrow> w' = w1
         | Inl e \<Rightarrow> \<exists>ev. replay_call ex ctx box dev ids distr cfg a ev w1 = Inl e))"

text \<open>
  The best score of the record stored at a path after the recorded checkpoint writes, given
  the one stored there before.
\<close>

fun stored_best :: "string \<Rightarrow> event list \<Rightarrow> real option \<Rightarrow> real option" where
  "stored_best path [] stored = stored"
| "stored_best path (SaveCkpt m best p # tr) stored =
     stored_best path tr (if p = path then Some best else stored)"
| "stored_best path (ev # tr) stored = stored_best path tr stored"

text \<open>
  A collaborator that leaves the files at checkpoint paths alone: no method of the
  distillation box creates, changes or removes one.
\<close>

definition keeps_files :: "'t distillation_box \<Rightarrow> bool" where
  "keeps_files box =
     ((\<forall>epoch w w1. pre_process box epoch w = Inr w1 \<longrightarrow> files w1 = files w)
      \<and> (\<forall>w w1. post_process box w = Inr w1 \<longrightarrow> files w1 = files w)
      \<and> (\<forall>w w1. clean_modules box w = Inr w1 \<longrightarrow> files w1 = files w)
      \<and> (\<forall>x y supp w loss w1. box_call box x y supp w = Inr (loss, w1) \<longrightarrow> files w1 = files w)
      \<and> (\<forall>loss w w1. update_params box loss w = Inr w1 \<longrightarrow> files w1 = files w))"

text \<open>
  A checkpoint write of the record is in order when it is made on the main process and saves
  the unwrapped student model.
\<close>

definition save_ok :: "dist_context \<Rightarrow> model \<Rightarrow> event \<Rightarrow> bool" where
  "save_ok ctx sm ev =
     (is_SaveCkpt ev \<longrightarrow>
        is_main_process ctx \<and> saved_model ev = Some (student_model_without_ddp sm))"

subsection \<open>The orchestrator as the spec words it\<close>

text \<open>
  Section 4.6 of the spec, step 3: the calls of one epoch, in order, given the validation score
  and whether the best checkpoint is updated.
\<close>

definition spec_epoch_calls :: "model \<Rightarrow> string \<Rightarrow> int \<Rightarrow> real \<Rightarrow> bool \<Rightarrow> event list" where
  "spec_epoch_calls sm path epoch v saved =
     [PreProcess epoch, DistillOneEpoch epoch, Evaluate sm v]
     @ (if saved then [SaveCkpt (student_model_without_ddp sm) v path] else [])
     @ [PostProcess]"

fun spec_calls :: "model \<Rightarrow> string \<Rightarrow> int list \<Rightarrow> (real \<times> bool) list \<Rightarrow> event list" where
  "spec_calls sm path (epoch # epochs) ((v, saved) # outcomes) =
     spec_epoch_calls sm path epoch v saved @ spec_calls sm path epochs outcomes"
| "spec_calls sm path epochs outcomes = []"

text \<open>
  Section 4.6, step 3d, and section 8: an epoch writes a checkpoint iff its validation score
  strictly exceeds the current best score and the process is the main process; the score is
  then the new best score.
\<close>

fun spec_outcomes :: "bool \<Rightarrow> real \<Rightarrow> real list \<Rightarrow> (real \<times> bool) list" where
  "spec_outcomes is_main best [] = []"
| "spec_outcomes is_main best (v # vs) =
     (v, v > best \<and> is_main)
     # spec_outcomes is_main (if v > best \<and> is_main then v else best) vs"

subsection \<open>A concrete run\<close>

text \<open>
  A student with one weight whose top-1 accuracy on the single validation batch is that
  weight. Every parameter update moves the weight along the schedule 0.5, 0.4, 0.6, 0.6, 0.7,
  one step per epoch; the optimizer counts the steps.
\<close>

definition demo_cpu :: device where
  "demo_cpu = \<lparr>dev_type = ''cpu'', dev_index = None\<rparr>"

definition demo_cuda :: device where
  "demo_cuda = \<lparr>dev_type = ''cuda'', dev_index = Some 0\<rparr>"

definition demo_world :: "real world" where
  "demo_world =
     \<lparr>modules = (\<lambda>i. \<lparr>params = [(''weight'', 1 / 2)], training = True, on_device = demo_cpu\<rparr>),
      optimizer = [(''step'', 0)], lr_scheduler = [], files = Map.empty, num_threads = 4\<rparr>"

definition demo_schedule :: "real \<Rightarrow> real" where
  "demo_schedule k =
     (if k = 1 then 1 / 2 else if k = 2 then 2 / 5 else if k = 3 then 3 / 5
      else if k = 4 then 3 / 5 else 7 / 10)"

definition demo_update_params :: "real \<Rightarrow> real world \<Rightarrow> error + real world" where
  "demo_update_params loss w =
     (case optimizer w of
        [] \<Rightarrow> Inl (CollaboratorError ''optimizer'')
      | (k, step) # _ \<Rightarrow>
          Inr (w\<lparr>modules := (modules w)
                   (0 := (modules w 0)\<lparr>params := [(''weight'', demo_schedule (step + 1))]\<rparr>),
                optimizer := [(k, step + 1)]\<rparr>))"

definition demo_box :: "real distillation_box" where
  "demo_box =
     \<lparr>num_epochs = 5, train_data_loader = [(0, 0, [])], val_data_loader = [(0, 0)],
      pre_process =
        (\<lambda>epoch w. Inr (w\<lparr>modules := (modules w)(0 := (modules w 0)\<lparr>training := True\<rparr>)\<rparr>)),
      post_process = Inr, clean_modules = Inr,
      box_call = (\<lambda>sample_batch targets supp_dict w. Inr (0, w)),
      update_params = demo_update_params\<rparr>"

definition demo_ex :: "real externals" where
  "demo_ex =
     \<lparr>forward = (\<lambda>m w x. case params (modules w (base_module m)) of
                            [] \<Rightarrow> Inl (CollaboratorError ''forward'')
                          | (k, v) # _ \<Rightarrow> Inr v),
      compute_accuracy = (\<lambda>output target. Inr (output, 1)),
      batch_size = (\<lambda>x. 1),
      all_reduce = (\<lambda>w metric_name (c, t). (2 * c, 2 * t)),
      get_distillation_box = (\<lambda>teacher student dev device_ids distributed. demo_box),
      get_image_classification_model = (\<lambda>mc distributed sync w. None),
      ADAPTATION_CLASS_DICT = Map.empty, SPECIAL_CLASS_DICT = Map.empty,
      CUSTOM_MODEL_CLASS_DICT = Map.empty, CUSTOM_MODEL_FUNC_DICT = Map.empty\<rparr>"

definition demo_ctx :: dist_context where
  "demo_ctx = \<lparr>dist_initialized = False, rank = 0\<rparr>"

definition demo_ctx_rank1 :: dist_context where
  "demo_ctx_rank1 = \<lparr>dist_initialized = True, rank = 1\<rparr>"

definition demo_config :: config where
  "demo_config =
     \<lparr>teacher_model = \<lparr>model_name = ''teacher'', ckpt = ''teacher.pt''\<rparr>,
      student_model = \<lparr>model_name = ''student'', ckpt = ''student.pt''\<rparr>,
      log_freq = 1000\<rparr>"

definition demo_args :: args where
  "demo_args = \<lparr>start_epoch = 0, sync_bn = False, test_only = False, student_only = False\<rparr>"

definition demo_ctx_rank0 :: dist_context where
  "demo_ctx_rank0 = \<lparr>dist_initialized = True, rank = 0\<rparr>"

text \<open>The state of a run that resumes from a checkpoint with the best score 0.6.\<close>

definition demo_resume_world :: "real world" where
  "demo_resume_world =
     demo_world\<lparr>files := [''student.pt'' \<mapsto>
        \<lparr>ckpt_model = [(''weight'', 3 / 5)], ckpt_optimizer = [(''step'', 2)],
         ckpt_lr_scheduler = [(''last_epoch'', 2)], best_value = 3 / 5,
         ckpt_config = demo_config, ckpt_args = demo_args\<rparr>]\<rparr>"

text \<open>
  A collaborator that writes what it sees into the state of the learning-rate scheduler, one
  entry per call of a method: the epoch passed to \<^verbatim>\<open>pre_process\<close> (which also puts the
  student into training mode), the loss passed to \<^verbatim>\<open>update_params\<close>, and at
  \<^verbatim>\<open>post_process\<close> whether the student is in training mode and whether the checkpoint
  file exists.
\<close>

definition demo_log :: "string \<Rightarrow> real \<Rightarrow> real world \<Rightarrow> real world" where
  "demo_log entry x w = w\<lparr>lr_scheduler := lr_scheduler w @ [(entry, x)]\<rparr>"

definition demo_logging_box :: "real distillation_box" where
  "demo_logging_box =
     demo_box
       \<lparr>pre_process :=
          (\<lambda>epoch w. Inr (demo_log ''pre_process'' (of_int epoch)
                            (w\<lparr>modules := (modules w)(0 := (modules w 0)\<lparr>training := True\<rparr>)\<rparr>))),
        post_process :=
          (\<lambda>w. Inr (demo_log ''post_process: checkpoint file exists''
                        (if files w ''student.pt'' = None then 0 else 1)
                     (demo_log ''post_process: student in training mode''
                        (if training (modules w 0) then 1 else 0) w))),
        clean_modules := (\<lambda>w. Inr (demo_log ''clean_modules'' 0 w)),
        update_params :=
          (\<lambda>loss w. case demo_update_params loss w of
                       Inl e \<Rightarrow> Inl e
                     | Inr w1 \<Rightarrow> Inr (demo_log ''update_params'' loss w1))\<rparr>"

definition demo_logging_ex :: "real externals" where
  "demo_logging_ex =
     demo_ex\<lparr>get_distillation_box :=
               (\<lambda>teacher student dev device_ids distributed. demo_logging_box)\<rparr>"

section \<open>Properties\<close>

subsection \<open>Smoothed metric\<close>

lemma window_size_sv_updates: "window_size (sv_updates calls m) = window_size m"
  by (induction calls m rule: sv_updates.induct) (simp_all add: sv_update_def)

lemma count_sv_updates: "count (sv_updates calls m) = count m + (\<Sum>(v, n)\<leftarrow>calls. n)"
  by (induction calls m rule: sv_updates.induct) (simp_all add: sv_update_def)

lemma total_sv_updates:
  "total (sv_updates calls m) = total m + (\<Sum>(v, n)\<leftarrow>calls. v * of_int n)"
  by (induction calls m rule: sv_updates.induct) (simp_all add: sv_update_def)

lemma deque_append_drop:
  "deque_append k (drop (length xs - k) xs) v = drop (length (xs @ [v]) - k) (xs @ [v])"
proof (cases "length xs \<le> k")
  case True
  then show ?thesis by (simp add: deque_append_def Let_def)
next
  case False
  then have "Suc (length xs) - k = Suc (length xs - k)" by simp
  with False show ?thesis
    by (simp add: deque_append_def Let_def min_def drop_Suc tl_drop)
qed

lemma deque_sv_updates:
  "deque m = drop (length xs - window_size m) xs \<Longrightarrow>
   deque (sv_updates calls m) =
     drop (length (xs @ map fst calls) - window_size m) (xs @ map fst calls)"
proof (induction calls m arbitrary: xs rule: sv_updates.induct)
  case (1 m)
  then show ?case by simp
next
  case (2 v n calls m)
  have "deque (sv_update v n m) =
          drop (length (xs @ [v]) - window_size (sv_update v n m)) (xs @ [v])"
    using "2.prems" by (simp add: sv_update_def deque_append_drop del: length_append)
  from "2.IH" [OF this] show ?case
    by (simp add: sv_update_def)
qed

text \<open>
  Claim C5. After any finite sequence of \<^verbatim>\<open>update(v, w)\<close> calls on a fresh smoothed
  metric of any window capacity, \<^verbatim>\<open>global_avg\<close> is the sum of \<open>v * w\<close> divided by the sum
  of \<open>w\<close> over all calls ever made (and fails exactly when that sum of weights is 0), whatever
  the capacity; the capacity only truncates the windowed view, which holds the most recent
  \<open>capacity\<close> values.
\<close>

theorem global_avg_exact_and_window_independent:
  "global_avg (sv_updates calls (new_SmoothedValue cap)) =
     (if (\<Sum>(v, w)\<leftarrow>calls. w) = 0 then Inl ZeroDivisionError
      else Inr ((\<Sum>(v, w)\<leftarrow>calls. v * of_int w) / of_int (\<Sum>(v, w)\<leftarrow>calls. w)))
   \<and> global_avg (sv_updates calls (new_SmoothedValue cap)) =
       global_avg (sv_updates calls (new_SmoothedValue cap'))
   \<and> deque (sv_updates calls (new_SmoothedValue cap)) =
       drop (length calls - cap) (map fst calls)"
proof -
  have d: "deque (new_SmoothedValue cap) =
             drop (length ([]::real list) - window_size (new_SmoothedValue cap)) []"
    by (simp add: new_SmoothedValue_def)
  have "deque (sv_updates calls (new_SmoothedValue cap)) =
          drop (length calls - cap) (map fst calls)"
    using deque_sv_updates [OF d, of calls] by (simp add: new_SmoothedValue_def)
  then show ?thesis
    by (simp add: global_avg_def count_sv_updates total_sv_updates new_SmoothedValue_def)
qed

theorem global_avg_exact_witness:
  "global_avg (sv_updates [(1, 1), (2, 1), (6, 2)] (new_SmoothedValue 2)) = Inr (15 / 4)
   \<and> global_avg (sv_updates [(1, 1), (2, 1), (6, 2)] (new_SmoothedValue 2)) =
       global_avg (sv_updates [(1, 1), (2, 1), (6, 2)] (new_SmoothedValue 20))
   \<and> deque (sv_updates [(1, 1), (2, 1), (6, 2)] (new_SmoothedValue 2)) = [2, 6]"
  using global_avg_exact_and_window_independent [of "[(1, 1), (2, 1), (6, 2)]" 2 20]
  by (simp add: global_avg_def sv_update_def new_SmoothedValue_def)

subsection \<open>The evaluator\<close>

lemma evaluate_batches_cong:
  "\<forall>x. forward ex' m w x = forward ex m w x \<Longrightarrow>
   compute_accuracy ex' = compute_accuracy ex \<Longrightarrow> batch_size ex' = batch_size ex \<Longrightarrow>
   evaluate_batches ex' m w dl ml = evaluate_batches ex m w dl ml"
  by (induction ex m w dl ml rule: evaluate_batches.induct)
     (simp_all split: sum.splits prod.splits)

lemma synchronize_cong:
  "all_reduce ex' = all_reduce ex \<Longrightarrow>
   synchronize_between_processes ex' ctx w ml = synchronize_between_processes ex ctx w ml"
  by (simp add: synchronize_between_processes_def)

text \<open>
  The result of \<^verbatim>\<open>evaluate\<close> depends on the forward pass only through its values on the
  model that the evaluation runs and the state in which it runs it.
\<close>

lemma evaluate_cong:
  assumes "\<forall>x. forward ex' (evaluate_wrap m dev ids distr)
                 (model_eval (evaluate_wrap m dev ids distr)
                    ((model_to m dev w)\<lparr>num_threads := 1\<rparr>)) x
              = forward ex (evaluate_wrap m dev ids distr)
                 (model_eval (evaluate_wrap m dev ids distr)
                    ((model_to m dev w)\<lparr>num_threads := 1\<rparr>)) x"
    and "compute_accuracy ex' = compute_accuracy ex" and "batch_size ex' = batch_size ex"
    and "all_reduce ex' = all_reduce ex"
  shows "evaluate ex' ctx m dl dev ids distr w = evaluate ex ctx m dl dev ids distr w"
proof -
  have b: "evaluate_batches ex' (evaluate_wrap m dev ids distr)
             (model_eval (evaluate_wrap m dev ids distr)
                ((model_to m dev w)\<lparr>num_threads := 1\<rparr>)) xs ml
           = evaluate_batches ex (evaluate_wrap m dev ids distr)
             (model_eval (evaluate_wrap m dev ids distr)
                ((model_to m dev w)\<lparr>num_threads := 1\<rparr>)) xs ml"
    for xs ml
    using assms(1-3) by (rule evaluate_batches_cong)
  have s: "synchronize_between_processes ex' ctx w1 ml =
           synchronize_between_processes ex ctx w1 ml"
    for w1 ml
    using assms(4) by (rule synchronize_cong)
  show ?thesis
    unfolding evaluate_def Let_def b s ..
qed

lemma evaluate_state:
  "evaluate ex ctx m dl dev ids distr w = Inr (score, w') \<Longrightarrow>
   w' = model_eval (evaluate_wrap m dev ids distr) (model_to m dev w)"
  by (auto simp: evaluate_def Let_def model_eval_def model_to_def split: sum.splits)

lemma base_module_evaluate_wrap [simp]:
  "base_module (evaluate_wrap m dev ids distr) = base_module m"
  by (simp add: evaluate_wrap_def)

lemma demo_evaluate:
  "evaluate demo_ex demo_ctx (Module 0) [(0, 0)] demo_cpu [] False demo_world =
     Inr (1 / 2, model_eval (Module 0) (model_to (Module 0) demo_cpu demo_world))"
  by (simp add: evaluate_def Let_def evaluate_wrap_def startswith_def demo_cpu_def demo_ex_def
      demo_world_def demo_ctx_def log_every_def model_eval_def model_to_def
      synchronize_between_processes_def meters_update_def meters_item_def meter_attr_def
      global_avg_def sv_update_def new_SmoothedValue_def)

text \<open>
  Claim C6, as the code has it. Every forward pass of \<^verbatim>\<open>evaluate\<close> runs on the
  \<^verbatim>\<open>DistributedDataParallel\<close> wrapper of the model when \<open>distributed\<close> is true, else on
  its \<^verbatim>\<open>DataParallel\<close> wrapper when the type of the device starts with \<^verbatim>\<open>cuda\<close>,
  whatever the number of device ids, and on the model itself, with no wrapper, only when the
  run is not distributed and the device is not a cuda device: replacing the forward pass by one
  that fails on any other model leaves the result unchanged.
\<close>

theorem evaluate_wrapper_by_distributed_and_cuda:
  "evaluate ex ctx m dl dev ids distr w =
     evaluate
       (ex\<lparr>forward := \<lambda>m' w1 x.
             if m' = (if distr then DistributedDataParallel m ids
                      else if startswith (dev_type dev) ''cuda'' then DataParallel m ids
                      else m)
             then forward ex m' w1 x else Inl (CollaboratorError ''wrapper'')\<rparr>)
       ctx m dl dev ids distr w
   \<and> (evaluate_wrap m dev ids distr = m) = (\<not> distr \<and> \<not> startswith (dev_type dev) ''cuda'')"
proof -
  have "evaluate
       (ex\<lparr>forward := \<lambda>m' w1 x.
             if m' = (if distr then DistributedDataParallel m ids
                      else if startswith (dev_type dev) ''cuda'' then DataParallel m ids
                      else m)
             then forward ex m' w1 x else Inl (CollaboratorError ''wrapper'')\<rparr>)
       ctx m dl dev ids distr w = evaluate ex ctx m dl dev ids distr w"
    by (rule evaluate_cong) (simp_all add: evaluate_wrap_def)
  moreover have "DistributedDataParallel m ids \<noteq> m" "DataParallel m ids \<noteq> m"
    by (induction m) simp_all
  ultimately show ?thesis
    by (simp add: evaluate_wrap_def)
qed

theorem evaluate_wrapper_witness:
  "evaluate demo_ex demo_ctx (Module 0) [(0, 0)] demo_cpu [] False demo_world =
     evaluate
       (demo_ex\<lparr>forward := \<lambda>m' w1 x.
             if m' = Module 0 then forward demo_ex m' w1 x
             else Inl (CollaboratorError ''wrapper'')\<rparr>)
       demo_ctx (Module 0) [(0, 0)] demo_cpu [] False demo_world
   \<and> evaluate_wrap (Module 0) demo_cpu [] False = Module 0
   \<and> evaluate_wrap (Module 0) demo_cuda [0] True = DistributedDataParallel (Module 0) [0]"
  using evaluate_wrapper_by_distributed_and_cuda
          [of demo_ex demo_ctx "Module 0" "[(0, 0)]" demo_cpu "[]" False demo_world]
  by (simp add: demo_cpu_def startswith_def evaluate_wrap_def)

text \<open>
  Claim C6, as stated, fails on a single cuda device in a run that is not distributed: the
  evaluator wraps the model in \<^verbatim>\<open>DataParallel\<close>, and a forward pass that rejects wrapped
  models makes the evaluation fail.
\<close>

theorem evaluate_single_cuda_device_wrapped:
  "evaluate_wrap (Module 0) demo_cuda [0] False = DataParallel (Module 0) [0]
   \<and> evaluate
       (demo_ex\<lparr>forward := \<lambda>m' w1 x.
             if check_if_wrapped m' then Inl (CollaboratorError ''wrapped'')
             else forward demo_ex m' w1 x\<rparr>)
       demo_ctx (Module 0) [(0, 0)] demo_cuda [0] False demo_world
     = Inl (CollaboratorError ''wrapped'')"
  by (simp add: evaluate_def Let_def evaluate_wrap_def demo_cuda_def startswith_def
      log_every_def)

text \<open>
  Claim C7, as the code has it. \<^verbatim>\<open>evaluate\<close> puts the model into inference mode and
  leaves it there: every forward pass of the call runs with the training flag of the model
  cleared, and when the call returns the flag is still cleared, whatever it was before.
\<close>

theorem evaluate_leaves_inference_mode:
  "(evaluate ex ctx m dl dev ids distr w = Inr (score, w') \<longrightarrow>
      \<not> training (modules w' (base_module m)))
   \<and> evaluate ex ctx m dl dev ids distr w =
       evaluate
         (ex\<lparr>forward := \<lambda>m' w1 x.
               if \<not> training (modules w1 (base_module m)) then forward ex m' w1 x
               else Inl (CollaboratorError ''training'')\<rparr>)
         ctx m dl dev ids distr w"
proof -
  have "evaluate
         (ex\<lparr>forward := \<lambda>m' w1 x.
               if \<not> training (modules w1 (base_module m)) then forward ex m' w1 x
               else Inl (CollaboratorError ''training'')\<rparr>)
         ctx m dl dev ids distr w = evaluate ex ctx m dl dev ids distr w"
    by (rule evaluate_cong) (simp_all add: model_eval_def)
  then show ?thesis
    by (auto dest!: evaluate_state simp: model_eval_def model_to_def)
qed

theorem evaluate_leaves_inference_mode_witness:
  "evaluate demo_ex demo_ctx (Module 0) [(0, 0)] demo_cpu [] False demo_world =
     Inr (1 / 2, model_eval (Module 0) (model_to (Module 0) demo_cpu demo_world))
   \<and> \<not> training (modules (model_eval (Module 0) (model_to (Module 0) demo_cpu demo_world))
                   (base_module (Module 0)))"
  using evaluate_leaves_inference_mode
          [of demo_ex demo_ctx "Module 0" "[(0, 0)]" demo_cpu "[]" False demo_world "1 / 2"
             "model_eval (Module 0) (model_to (Module 0) demo_cpu demo_world)"]
        demo_evaluate
  by simp

text \<open>
  Claim C7, as stated, fails: a model in training mode before the call is in inference mode
  after \<^verbatim>\<open>evaluate\<close> has returned.
\<close>

theorem evaluate_does_not_restore_training_mode:
  "training (modules demo_world 0)
   \<and> evaluate demo_ex demo_ctx (Module 0) [(0, 0)] demo_cpu [] False demo_world =
       Inr (1 / 2, model_eval (Module 0) (model_to (Module 0) demo_cpu demo_world))
   \<and> \<not> training (modules (model_eval (Module 0) (model_to (Module 0) demo_cpu demo_world)) 0)"
  using demo_evaluate by (simp add: demo_world_def model_eval_def model_to_def)

text \<open>
  Claim C10. \<^verbatim>\<open>evaluate\<close> saves the global thread count, sets it to 1 and restores the
  saved value before it returns: every forward pass of the call runs with the thread count 1,
  and when the call returns the thread count is the one the caller had.
\<close>

theorem evaluate_restores_num_threads:
  "(evaluate ex ctx m dl dev ids distr w = Inr (score, w') \<longrightarrow> num_threads w' = num_threads w)
   \<and> evaluate ex ctx m dl dev ids distr w =
       evaluate
         (ex\<lparr>forward := \<lambda>m' w1 x.
               if num_threads w1 = 1 then forward ex m' w1 x
               else Inl (CollaboratorError ''num_threads'')\<rparr>)
         ctx m dl dev ids distr w"
proof -
  have "evaluate
         (ex\<lparr>forward := \<lambda>m' w1 x.
               if num_threads w1 = 1 then forward ex m' w1 x
               else Inl (CollaboratorError ''num_threads'')\<rparr>)
         ctx m dl dev ids distr w = evaluate ex ctx m dl dev ids distr w"
    by (rule evaluate_cong) (simp_all add: model_eval_def)
  then show ?thesis
    by (auto dest!: evaluate_state simp: model_eval_def model_to_def)
qed

theorem evaluate_restores_num_threads_witness:
  "evaluate demo_ex demo_ctx (Module 0) [(0, 0)] demo_cpu [] False demo_world =
     Inr (1 / 2, model_eval (Module 0) (model_to (Module 0) demo_cpu demo_world))
   \<and> num_threads (model_eval (Module 0) (model_to (Module 0) demo_cpu demo_world)) = 4
   \<and> num_threads demo_world = 4"
  using evaluate_restores_num_threads
          [of demo_ex demo_ctx "Module 0" "[(0, 0)]" demo_cpu "[]" False demo_world "1 / 2"
             "model_eval (Module 0) (model_to (Module 0) demo_cpu demo_world)"]
        demo_evaluate
  by (simp add: demo_world_def)

subsection \<open>The training orchestrator\<close>

lemma distill_epoch_Inr:
  assumes "distill_epoch ex ctx box sm dev ids distr cfg a epoch best w tr = (tr1, Inr (best1, w1))"
  shows "\<exists>v. tr1 = tr @ spec_epoch_calls sm (ckpt (student_model cfg)) epoch v
                        (v > best \<and> is_main_process ctx)
             \<and> best1 = (if v > best \<and> is_main_process ctx then v else best)"
  using assms
  by (auto simp: distill_epoch_def Let_def spec_epoch_calls_def split: sum.splits prod.splits if_splits)

lemma distill_epochs_Inr:
  "distill_epochs ex ctx box sm dev ids distr cfg a epochs best w tr = (tr', Inr (best', w')) \<Longrightarrow>
   \<exists>vals. length vals = length epochs \<and>
      tr' = tr @ spec_calls sm (ckpt (student_model cfg)) epochs
                   (spec_outcomes (is_main_process ctx) best vals)"
proof (induction epochs arbitrary: best w tr)
  case Nil
  then show ?case by simp
next
  case (Cons epoch rest)
  from Cons.prems obtain tr1 best1 w1 where
    step: "distill_epoch ex ctx box sm dev ids distr cfg a epoch best w tr = (tr1, Inr (best1, w1))"
    and rest: "distill_epochs ex ctx box sm dev ids distr cfg a rest best1 w1 tr1 = (tr', Inr (best', w'))"
    by (auto split: prod.splits sum.splits)
  from distill_epoch_Inr [OF step] obtain v where
    tr1: "tr1 = tr @ spec_epoch_calls sm (ckpt (student_model cfg)) epoch v (v > best \<and> is_main_process ctx)"
    and best1: "best1 = (if v > best \<and> is_main_process ctx then v else best)"
    by blast
  from Cons.IH [OF rest] obtain vals where
    len: "length vals = length rest"
    and tr': "tr' = tr1 @ spec_calls sm (ckpt (student_model cfg)) rest
                          (spec_outcomes (is_main_process ctx) best1 vals)"
    by blast
  have "length (v # vals) = length (epoch # rest)" using len by simp
  moreover have "tr' = tr @ spec_calls sm (ckpt (student_model cfg)) (epoch # rest)
                   (spec_outcomes (is_main_process ctx) best (v # vals))"
    using tr' tr1 best1 by simp
  ultimately show ?case by blast
qed

lemma length_spec_outcomes [simp]: "length (spec_outcomes is_main best vals) = length vals"
  by (induction vals arbitrary: best) simp_all

lemma map_fst_spec_outcomes [simp]: "map fst (spec_outcomes is_main best vals) = vals"
  by (induction vals arbitrary: best) simp_all

lemma epoch_results_spec_epoch_calls:
  "epoch_results (spec_epoch_calls sm path epoch v saved @ tr) = (v, saved) # epoch_results tr"
  by (simp add: spec_epoch_calls_def)

lemma epoch_results_spec_calls:
  "length outcomes = length epochs \<Longrightarrow>
   epoch_results (spec_calls sm path epochs outcomes @ tr) = outcomes @ epoch_results tr"
proof (induction sm path epochs outcomes rule: spec_calls.induct)
  case (1 sm path epoch epochs v saved outcomes)
  then show ?case by (simp add: epoch_results_spec_epoch_calls)
qed simp_all

lemma filter_SaveCkpt_spec_calls:
  "length outcomes = length epochs \<Longrightarrow>
   length (filter is_SaveCkpt (spec_calls sm path epochs outcomes)) = length (filter snd outcomes)"
proof (induction sm path epochs outcomes rule: spec_calls.induct)
  case (1 sm path epoch epochs v saved outcomes)
  then show ?case by (simp add: spec_epoch_calls_def)
qed simp_all

lemma distill_resume_cases:
  "distill_resume path w =
     (case files w path of
        None \<Rightarrow> ([], Inr (0, w))
      | Some c \<Rightarrow>
          ([LoadCkpt path None],
           Inr (best_value c, w\<lparr>optimizer := ckpt_optimizer c, lr_scheduler := ckpt_lr_scheduler c\<rparr>)))"
  by (simp add: distill_resume_def check_if_exists_def load_ckpt_def split: option.splits)

lemma distill_training_Inr:
  assumes "distill_training ex ctx box sm dev ids distr start cfg a best w = (tr, Inr w')"
  shows "\<exists>vals. length vals = length (py_range start (num_epochs box)) \<and>
           tr = spec_calls sm (ckpt (student_model cfg)) (py_range start (num_epochs box))
                  (spec_outcomes (is_main_process ctx) best vals)
                @ (if distr then [Barrier] else []) @ [CleanModules]"
proof -
  from assms obtain tr0 best' w1 where
    loop: "distill_epochs ex ctx box sm dev ids distr cfg a (py_range start (num_epochs box)) best w []
             = (tr0, Inr (best', w1))"
    and tr: "tr = tr0 @ (if distr then [Barrier] else []) @ [CleanModules]"
    by (auto simp: distill_training_def Let_def split: prod.splits sum.splits if_splits)
  from distill_epochs_Inr [OF loop] tr show ?thesis by auto
qed

lemma distill_Inr:
  assumes "distill ex ctx teacher sm dev ids distr start cfg a w = (tr, Inr w')"
  shows "\<exists>vals. length vals =
                  length (py_range start (num_epochs (get_distillation_box ex teacher sm dev ids distr))) \<and>
           tr = (if check_if_exists (ckpt (student_model cfg)) w
                 then [LoadCkpt (ckpt (student_model cfg)) None] else [])
                @ spec_calls sm (ckpt (student_model cfg))
                    (py_range start (num_epochs (get_distillation_box ex teacher sm dev ids distr)))
                    (spec_outcomes (is_main_process ctx)
                       (case files w (ckpt (student_model cfg)) of None \<Rightarrow> 0 | Some c \<Rightarrow> best_value c) vals)
                @ (if distr then [Barrier] else []) @ [CleanModules]"
proof (cases "files w (ckpt (student_model cfg))")
  case None
  with assms have "distill_training ex ctx (get_distillation_box ex teacher sm dev ids distr)
                      sm dev ids distr start cfg a 0 w = (tr, Inr w')"
    by (auto simp: distill_def Let_def distill_resume_cases split: prod.splits)
  from distill_training_Inr [OF this] None show ?thesis
    by (simp add: check_if_exists_def)
next
  case (Some c)
  with assms obtain tr1 where
    run: "distill_training ex ctx (get_distillation_box ex teacher sm dev ids distr)
            sm dev ids distr start cfg a (best_value c)
            (w\<lparr>optimizer := ckpt_optimizer c, lr_scheduler := ckpt_lr_scheduler c\<rparr>) = (tr1, Inr w')"
    and tr: "tr = LoadCkpt (ckpt (student_model cfg)) None # tr1"
    by (auto simp: distill_def Let_def distill_resume_cases split: prod.splits)
  from distill_training_Inr [OF run] tr Some show ?thesis
    by (simp add: check_if_exists_def)
qed

text \<open>
  Whatever the outcome of the run, also when an exception ends it: every checkpoint write of
  the record is made on the main process and saves the unwrapped student model.
\<close>

lemma distill_epoch_saves:
  "distill_epoch ex ctx box sm dev ids distr cfg a epoch best w tr = (tr1, r) \<Longrightarrow>
   list_all (save_ok ctx sm) tr \<Longrightarrow> list_all (save_ok ctx sm) tr1"
  by (auto simp: distill_epoch_def Let_def save_ok_def split: sum.splits prod.splits if_splits)

lemma distill_epochs_saves:
  "distill_epochs ex ctx box sm dev ids distr cfg a epochs best w tr = (tr1, r) \<Longrightarrow>
   list_all (save_ok ctx sm) tr \<Longrightarrow> list_all (save_ok ctx sm) tr1"
proof (induction epochs arbitrary: best w tr)
  case Nil
  then show ?case by simp
next
  case (Cons epoch rest)
  obtain tr0 r0 where step: "distill_epoch ex ctx box sm dev ids distr cfg a epoch best w tr = (tr0, r0)"
    by (cases "distill_epoch ex ctx box sm dev ids distr cfg a epoch best w tr")
  from distill_epoch_saves [OF step Cons.prems(2)] have ok: "list_all (save_ok ctx sm) tr0" .
  show ?case
  proof (cases r0)
    case (Inl e)
    with Cons.prems(1) step ok show ?thesis by simp
  next
    case (Inr bw)
    with Cons.prems(1) step have "distill_epochs ex ctx box sm dev ids distr cfg a rest (fst bw) (snd bw) tr0 = (tr1, r)"
      by (cases bw) simp
    from Cons.IH [OF this ok] show ?thesis .
  qed
qed

lemma distill_training_saves:
  "distill_training ex ctx box sm dev ids distr start cfg a best w = (tr, r) \<Longrightarrow>
   list_all (save_ok ctx sm) tr"
proof -
  assume run: "distill_training ex ctx box sm dev ids distr start cfg a best w = (tr, r)"
  obtain tr0 r0 where loop: "distill_epochs ex ctx box sm dev ids distr cfg a (py_range start (num_epochs box)) best w [] = (tr0, r0)"
    by (cases "distill_epochs ex ctx box sm dev ids distr cfg a (py_range start (num_epochs box)) best w []")
  from distill_epochs_saves [OF loop] have "list_all (save_ok ctx sm) tr0" by simp
  with run loop show ?thesis
    by (auto simp: distill_training_def Let_def save_ok_def split: sum.splits prod.splits if_splits)
qed

lemma distill_saves:
  "distill ex ctx teacher sm dev ids distr start cfg a w = (tr, r) \<Longrightarrow>
   list_all (save_ok ctx sm) tr"
  by (auto simp: distill_def Let_def distill_resume_cases save_ok_def
      split: option.splits prod.splits dest!: distill_training_saves)

lemma demo_py_range: "py_range 0 5 = [0, 1, 2, 3, 4]"
  by (simp add: py_range_def upto.simps)

lemmas demo_defs =
  distill_def distill_resume_def check_if_exists_def distill_training_def
  distill_epoch_def distill_one_epoch_def save_ckpt_def is_main_process_def
  evaluate_def Let_def evaluate_wrap_def startswith_def demo_cpu_def demo_cuda_def demo_ex_def
  demo_world_def demo_ctx_def demo_ctx_rank1_def demo_ctx_rank0_def demo_box_def demo_config_def demo_args_def
  demo_update_params_def demo_schedule_def log_every_def model_eval_def model_to_def
  synchronize_between_processes_def meters_update_def meters_item_def meter_attr_def
  global_avg_def sv_update_def new_SmoothedValue_def

lemma demo_py_range_3: "py_range 3 5 = [3, 4]"
  by (simp add: py_range_def upto.simps)


text \<open>
  The record of calls explains every outcome of the orchestrator: the state changes of a run
  are those of its recorded calls, in their order, and of no other call.
\<close>

lemma replay_append:
  "replay ex ctx box dev ids distr cfg a (tr1 @ tr2) w =
     (case replay ex ctx box dev ids distr cfg a tr1 w of
        Inl e \<Rightarrow> Inl e
      | Inr w1 \<Rightarrow> replay ex ctx box dev ids distr cfg a tr2 w1)"
  by (induction tr1 arbitrary: w) (simp_all split: sum.splits)

lemma distill_epoch_sound:
  assumes "distill_epoch ex ctx box sm dev ids distr cfg a epoch best w tr = (tr1, r)"
  shows "\<exists>evs. tr1 = tr @ evs \<and> explains ex ctx box dev ids distr cfg a evs w (result_state r)"
proof (cases "pre_process box epoch w")
  case (Inl e)
  with assms have "tr1 = tr @ []" "r = Inl e" by (auto simp: distill_epoch_def)
  moreover have "\<exists>ev. replay_call ex ctx box dev ids distr cfg a ev w = Inl e"
      using Inl by (intro exI [of _ "PreProcess epoch"]) simp
  ultimately show ?thesis unfolding explains_def by (intro exI [of _ "[]"]) auto
next
  case w1: (Inr w1)
  show ?thesis
  proof (cases "distill_one_epoch box dev epoch (log_freq cfg) w1")
    case (Inl e)
    with assms w1 have "tr1 = tr @ [PreProcess epoch]" "r = Inl e" by (auto simp: distill_epoch_def)
    moreover have "\<exists>ev. replay_call ex ctx box dev ids distr cfg a ev w1 = Inl e"
      using Inl by (intro exI [of _ "DistillOneEpoch epoch"]) simp
    ultimately show ?thesis unfolding explains_def
      using w1 by (intro exI [of _ "[PreProcess epoch]"]) auto
  next
    case w2: (Inr w2)
    show ?thesis
    proof (cases "evaluate ex ctx sm (val_data_loader box) dev ids distr w2")
      case (Inl e)
      with assms w1 w2 have "tr1 = tr @ [PreProcess epoch, DistillOneEpoch epoch]" "r = Inl e"
        by (auto simp: distill_epoch_def)
      moreover have "\<exists>ev. replay_call ex ctx box dev ids distr cfg a ev w2 = Inl e"
      using Inl by (intro exI [of _ "Evaluate sm 0"]) simp
      ultimately show ?thesis unfolding explains_def
        using w1 w2 by (intro exI [of _ "[PreProcess epoch, DistillOneEpoch epoch]"]) auto
    next
      case (Inr vw)
      then obtain v w3 where ev: "evaluate ex ctx sm (val_data_loader box) dev ids distr w2 = Inr (v, w3)"
        by (cases vw) auto
      let ?save = "v > best \<and> is_main_process ctx"
      let ?w4 = "if ?save then save_ckpt (student_model_without_ddp sm) v cfg a (ckpt (student_model cfg)) w3 else w3"
      let ?evs = "[PreProcess epoch, DistillOneEpoch epoch, Evaluate sm v]
                  @ (if ?save then [SaveCkpt (student_model_without_ddp sm) v (ckpt (student_model cfg))] else [])"
      have rep: "replay ex ctx box dev ids distr cfg a ?evs w = Inr ?w4"
        using w1 w2 ev by simp
      show ?thesis
      proof (cases "post_process box ?w4")
        case (Inl e)
        with assms w1 w2 ev have "tr1 = tr @ ?evs" "r = Inl e"
          by (auto simp: distill_epoch_def Let_def split: if_splits)
        moreover have "\<exists>ev. replay_call ex ctx box dev ids distr cfg a ev ?w4 = Inl e"
      using Inl by (intro exI [of _ "PostProcess"]) simp
        ultimately show ?thesis unfolding explains_def
          using rep by (intro exI [of _ ?evs]) auto
      next
        case (Inr w5)
        with assms w1 w2 ev have "tr1 = tr @ ?evs @ [PostProcess]" "result_state r = Inr w5"
          by (auto simp: distill_epoch_def Let_def split: if_splits)
        moreover have "replay ex ctx box dev ids distr cfg a (?evs @ [PostProcess]) w = Inr w5"
          using rep Inr by (simp only: replay_append) simp
        ultimately show ?thesis unfolding explains_def
          by (intro exI [of _ "?evs @ [PostProcess]"]) auto
      qed
    qed
  qed
qed

lemma explains_append:
  "replay ex ctx box dev ids distr cfg a evs1 w = Inr w1 \<Longrightarrow>
   explains ex ctx box dev ids distr cfg a evs2 w1 r \<Longrightarrow>
   explains ex ctx box dev ids distr cfg a (evs1 @ evs2) w r"
  by (simp add: explains_def replay_append)

lemma distill_epochs_sound:
  "distill_epochs ex ctx box sm dev ids distr cfg a epochs best w tr = (tr', r) \<Longrightarrow>
   \<exists>evs. tr' = tr @ evs \<and> explains ex ctx box dev ids distr cfg a evs w (result_state r)"
proof (induction epochs arbitrary: best w tr)
  case Nil
  then show ?case by (auto simp: explains_def)
next
  case (Cons epoch rest)
  obtain tr1 r0 where
    step: "distill_epoch ex ctx box sm dev ids distr cfg a epoch best w tr = (tr1, r0)"
    by (cases "distill_epoch ex ctx box sm dev ids distr cfg a epoch best w tr")
  from distill_epoch_sound [OF step] obtain evs1 where
    tr1: "tr1 = tr @ evs1"
    and ex1: "explains ex ctx box dev ids distr cfg a evs1 w (result_state r0)"
    by blast
  show ?case
  proof (cases r0)
    case (Inl e)
    with Cons.prems step have "tr' = tr1" "r = Inl e" by simp_all
    with tr1 ex1 Inl show ?thesis by auto
  next
    case (Inr bw)
    obtain best1 w1 where bw: "bw = (best1, w1)" by (cases bw)
    from Cons.prems step Inr bw have
      rest: "distill_epochs ex ctx box sm dev ids distr cfg a rest best1 w1 tr1 = (tr', r)"
      by simp
    from ex1 Inr bw have rep1: "replay ex ctx box dev ids distr cfg a evs1 w = Inr w1"
      by (simp add: explains_def)
    from Cons.IH [OF rest] obtain evs2 where
      tr': "tr' = tr1 @ evs2"
      and ex2: "explains ex ctx box dev ids distr cfg a evs2 w1 (result_state r)"
      by blast
    from explains_append [OF rep1 ex2] tr' tr1 show ?thesis by auto
  qed
qed

lemma distill_training_sound:
  assumes "distill_training ex ctx box sm dev ids distr start cfg a best w = (tr, r)"
  shows "explains ex ctx box dev ids distr cfg a tr w r"
proof -
  obtain tr0 r0 where
    loop: "distill_epochs ex ctx box sm dev ids distr cfg a (py_range start (num_epochs box)) best w []
             = (tr0, r0)"
    by (cases "distill_epochs ex ctx box sm dev ids distr cfg a (py_range start (num_epochs box)) best w []")
  from distill_epochs_sound [OF loop] have
    ex0: "explains ex ctx box dev ids distr cfg a tr0 w (result_state r0)"
    by simp
  show ?thesis
  proof (cases r0)
    case (Inl e)
    with assms loop have "tr = tr0" "r = Inl e" by (simp_all add: distill_training_def)
    with ex0 Inl show ?thesis by simp
  next
    case (Inr bw)
    obtain best1 w1 where bw: "bw = (best1, w1)" by (cases bw)
    from ex0 Inr bw have rep0: "replay ex ctx box dev ids distr cfg a tr0 w = Inr w1"
      by (simp add: explains_def)
    let ?tr1 = "if distr then tr0 @ [Barrier] else tr0"
    have rep1: "replay ex ctx box dev ids distr cfg a ?tr1 w = Inr w1"
      using rep0 by (cases distr) (simp_all add: replay_append)
    show ?thesis
    proof (cases "clean_modules box w1")
      case (Inl e)
      with assms loop Inr bw have "tr = ?tr1" "r = Inl e"
        by (simp_all add: distill_training_def Let_def)
      moreover have "\<exists>ev. replay_call ex ctx box dev ids distr cfg a ev w1 = Inl e"
        using Inl by (intro exI [of _ CleanModules]) simp
      ultimately show ?thesis using rep1 by (simp add: explains_def)
    next
      case w2: (Inr w2)
      with assms loop Inr bw have "tr = ?tr1 @ [CleanModules]" "r = Inr w2"
        by (simp_all add: distill_training_def Let_def)
      moreover have "replay ex ctx box dev ids distr cfg a (?tr1 @ [CleanModules]) w = Inr w2"
        using rep1 w2 by (simp only: replay_append) simp
      ultimately show ?thesis by (simp add: explains_def)
    qed
  qed
qed

lemma distill_sound:
  assumes "distill ex ctx teacher sm dev ids distr start cfg a w = (tr, r)"
  shows "explains ex ctx (get_distillation_box ex teacher sm dev ids distr) dev ids distr cfg a tr w r"
proof (cases "files w (ckpt (student_model cfg))")
  case None
  with assms have "distill_training ex ctx (get_distillation_box ex teacher sm dev ids distr)
                      sm dev ids distr start cfg a 0 w = (tr, r)"
    by (auto simp: distill_def Let_def distill_resume_cases split: prod.splits)
  from distill_training_sound [OF this] show ?thesis .
next
  case (Some c)
  let ?w0 = "w\<lparr>optimizer := ckpt_optimizer c, lr_scheduler := ckpt_lr_scheduler c\<rparr>"
  from Some assms obtain tr1 where
    run: "distill_training ex ctx (get_distillation_box ex teacher sm dev ids distr)
            sm dev ids distr start cfg a (best_value c) ?w0 = (tr1, r)"
    and tr: "tr = [LoadCkpt (ckpt (student_model cfg)) None] @ tr1"
    by (auto simp: distill_def Let_def distill_resume_cases split: prod.splits)
  have "replay ex ctx (get_distillation_box ex teacher sm dev ids distr) dev ids distr cfg a
          [LoadCkpt (ckpt (student_model cfg)) None] w = Inr ?w0"
    using Some by (simp add: load_ckpt_def)
  from explains_append [OF this distill_training_sound [OF run]] tr show ?thesis by simp
qed

text \<open>
  Only \<^verbatim>\<open>save_ckpt\<close> touches the files when the collaborator leaves them alone.
\<close>

lemma evaluate_files:
  "evaluate ex ctx m dl dev ids distr w = Inr (score, w1) \<Longrightarrow> files w1 = files w"
  by (auto dest!: evaluate_state simp: model_eval_def model_to_def)

lemma distill_batches_files:
  "keeps_files box \<Longrightarrow> distill_batches box batches w = Inr w1 \<Longrightarrow> files w1 = files w"
proof (induction box batches w rule: distill_batches.induct)
  case (1 box w)
  then show ?case by simp
next
  case (2 box sample_batch targets supp_dict rest w)
  from "2.prems"(2) obtain loss wa wb where
    a: "box_call box sample_batch targets supp_dict w = Inr (loss, wa)"
    and b: "update_params box loss wa = Inr wb"
    and c: "distill_batches box rest wb = Inr w1"
    by (auto split: sum.splits prod.splits)
  from "2.prems"(1) a have "files wa = files w" unfolding keeps_files_def by blast
  moreover from "2.prems"(1) b have "files wb = files wa" unfolding keeps_files_def by blast
  moreover from "2.IH" [OF a refl b "2.prems"(1) c] have "files w1 = files wb" .
  ultimately show ?case by simp
qed

lemma replay_call_files:
  assumes "keeps_files box" and "\<not> is_SaveCkpt ev"
    and "replay_call ex ctx box dev ids distr cfg a ev w = Inr w1"
  shows "files w1 = files w"
proof (cases ev)
  case (LoadCkpt path strict)
  with assms(3) show ?thesis
    by (auto simp: load_ckpt_def Let_def split: option.splits sum.splits)
next
  case (PreProcess epoch)
  with assms(1,3) show ?thesis unfolding keeps_files_def by auto
next
  case (DistillOneEpoch epoch)
  with assms(1,3) show ?thesis
    by (auto simp: distill_one_epoch_def dest: distill_batches_files)
next
  case (Evaluate m score)
  with assms(3) show ?thesis
    by (auto split: sum.splits if_splits dest: evaluate_files)
next
  case (SaveCkpt m best path)
  with assms(2) show ?thesis by simp
next
  case PostProcess
  with assms(1,3) show ?thesis unfolding keeps_files_def by auto
next
  case Barrier
  with assms(3) show ?thesis by simp
next
  case CleanModules
  with assms(1,3) show ?thesis unfolding keeps_files_def by auto
qed

lemma replay_files_unchanged:
  "keeps_files box \<Longrightarrow> filter is_SaveCkpt tr = [] \<Longrightarrow>
   replay ex ctx box dev ids distr cfg a tr w = Inr w1 \<Longrightarrow> files w1 = files w"
proof (induction tr arbitrary: w)
  case Nil
  then show ?case by simp
next
  case (Cons ev tr)
  from Cons.prems(2) have nosave: "\<not> is_SaveCkpt ev" "filter is_SaveCkpt tr = []"
    by (auto split: if_splits)
  from Cons.prems(3) obtain wa where
    a: "replay_call ex ctx box dev ids distr cfg a ev w = Inr wa"
    and b: "replay ex ctx box dev ids distr cfg a tr wa = Inr w1"
    by (auto split: sum.splits)
  from replay_call_files [OF Cons.prems(1) nosave(1) a] Cons.IH [OF Cons.prems(1) nosave(2) b]
  show ?case by simp
qed

lemma replay_stored_best:
  "keeps_files box \<Longrightarrow> replay ex ctx box dev ids distr cfg a tr w = Inr w1 \<Longrightarrow>
   map_option best_value (files w1 path) = stored_best path tr (map_option best_value (files w path))"
proof (induction tr arbitrary: w)
  case Nil
  then show ?case by simp
next
  case (Cons ev tr)
  from Cons.prems(2) obtain wa where
    a: "replay_call ex ctx box dev ids distr cfg a ev w = Inr wa"
    and b: "replay ex ctx box dev ids distr cfg a tr wa = Inr w1"
    by (auto split: sum.splits)
  note ih = Cons.IH [OF Cons.prems(1) b]
  show ?case
  proof (cases "is_SaveCkpt ev")
    case True
    then obtain m best p where ev: "ev = SaveCkpt m best p" by (cases ev) auto
    with a have "wa = save_ckpt m best cfg a p w" by simp
    then have "map_option best_value (files wa path) =
               (if p = path then Some best else map_option best_value (files w path))"
      by (simp add: save_ckpt_def)
    with ih ev show ?thesis by simp
  next
    case False
    from replay_call_files [OF Cons.prems(1) False a] have "files wa = files w" .
    with ih False show ?thesis by (cases ev) simp_all
  qed
qed

lemma keeps_files_demo_box: "keeps_files demo_box"
  by (auto simp: keeps_files_def demo_box_def demo_update_params_def split: list.splits)

lemma keeps_files_demo_logging_box: "keeps_files demo_logging_box"
  by (auto simp: keeps_files_def demo_logging_box_def demo_box_def demo_update_params_def
      demo_log_def split: list.splits sum.splits)

lemma replay_split:
  assumes "replay ex ctx box dev ids distr cfg a (tr1 @ ev # tr2) w = Inr w1"
  shows "\<exists>ws wa. replay ex ctx box dev ids distr cfg a tr1 w = Inr ws
           \<and> replay_call ex ctx box dev ids distr cfg a ev ws = Inr wa
           \<and> replay ex ctx box dev ids distr cfg a tr2 wa = Inr w1"
  using assms by (auto simp: replay_append split: sum.splits)

lemma explains_prefix:
  assumes "explains ex ctx box dev ids distr cfg a tr w r"
  shows "\<exists>w1. replay ex ctx box dev ids distr cfg a tr w = Inr w1
           \<and> (case r of Inl e \<Rightarrow> \<exists>ev. replay_call ex ctx box dev ids distr cfg a ev w1 = Inl e
               | Inr w' \<Rightarrow> w' = w1)"
  using assms by (auto simp: explains_def split: sum.splits)

lemma demo_logging_run:
  "\<exists>w'. distill demo_logging_ex demo_ctx_rank0 (Module 1) (DistributedDataParallel (Module 0) [0])
           demo_cuda [0] True 3 demo_config demo_args demo_world
   = ([PreProcess 3, DistillOneEpoch 3, Evaluate (DistributedDataParallel (Module 0) [0]) (1 / 2),
       SaveCkpt (Module 0) (1 / 2) ''student.pt'', PostProcess,
       PreProcess 4, DistillOneEpoch 4, Evaluate (DistributedDataParallel (Module 0) [0]) (2 / 5),
       PostProcess, Barrier, CleanModules], Inr w')
     \<and> lr_scheduler w' =
         [(''pre_process'', 3), (''update_params'', 0),
          (''post_process: student in training mode'', 0),
          (''post_process: checkpoint file exists'', 1),
          (''pre_process'', 4), (''update_params'', 0),
          (''post_process: student in training mode'', 0),
          (''post_process: checkpoint file exists'', 1),
          (''clean_modules'', 0)]"
  by (simp add: demo_defs demo_py_range_3 demo_logging_ex_def demo_logging_box_def demo_log_def)

lemma demo_run_files:
  "\<exists>w'. distill demo_ex demo_ctx (Module 1) (Module 0) demo_cpu [] False 0 demo_config demo_args demo_world
   = ([PreProcess 0, DistillOneEpoch 0, Evaluate (Module 0) (1/2), SaveCkpt (Module 0) (1/2) ''student.pt'', PostProcess,
      PreProcess 1, DistillOneEpoch 1, Evaluate (Module 0) (2/5), PostProcess,
      PreProcess 2, DistillOneEpoch 2, Evaluate (Module 0) (3/5), SaveCkpt (Module 0) (3/5) ''student.pt'', PostProcess,
      PreProcess 3, DistillOneEpoch 3, Evaluate (Module 0) (3/5), PostProcess,
      PreProcess 4, DistillOneEpoch 4, Evaluate (Module 0) (7/10), SaveCkpt (Module 0) (7/10) ''student.pt'', PostProcess,
      CleanModules], Inr w')
    \<and> map_option best_value (files w' ''student.pt'') = Some (7 / 10)
    \<and> map_option ckpt_model (files w' ''student.pt'') = Some [(''weight'', 7 / 10)]"
  by (simp add: demo_defs demo_py_range)

lemma demo_run_rank1_files:
  "\<exists>w'. distill demo_ex demo_ctx_rank1 (Module 1) (DistributedDataParallel (Module 0) [1]) demo_cuda [1] True 3 demo_config demo_args demo_world
   = ([PreProcess 3, DistillOneEpoch 3, Evaluate (DistributedDataParallel (Module 0) [1]) (1 / 2), PostProcess,
       PreProcess 4, DistillOneEpoch 4, Evaluate (DistributedDataParallel (Module 0) [1]) (2 / 5), PostProcess,
       Barrier, CleanModules], Inr w')
     \<and> files w' ''student.pt'' = None"
  by (simp add: demo_defs demo_py_range_3)

lemma demo_run_rank0:
  "\<exists>w'. distill demo_ex demo_ctx_rank0 (Module 1) (DistributedDataParallel (Module 0) [0]) demo_cuda [0] True 3 demo_config demo_args demo_world
   = ([PreProcess 3, DistillOneEpoch 3, Evaluate (DistributedDataParallel (Module 0) [0]) (1 / 2),
       SaveCkpt (Module 0) (1 / 2) ''student.pt'', PostProcess,
       PreProcess 4, DistillOneEpoch 4, Evaluate (DistributedDataParallel (Module 0) [0]) (2 / 5), PostProcess,
       Barrier, CleanModules], Inr w')
     \<and> map_option ckpt_model (files w' ''student.pt'') = Some [(''weight'', 1 / 2)]
     \<and> params (modules w' 0) = [(''weight'', 2 / 5)]"
  by (simp add: demo_defs demo_py_range_3)


lemma epoch_results_tail [simp]:
  "epoch_results ((if distr then [Barrier] else []) @ [CleanModules]) = []"
  by simp

lemma demo_ex_box [simp]: "get_distillation_box demo_ex teacher student dev ids distr = demo_box"
  by (simp add: demo_ex_def)

lemma demo_logging_ex_box [simp]:
  "get_distillation_box demo_logging_ex teacher student dev ids distr = demo_logging_box"
  by (simp add: demo_logging_ex_def)

lemma distill_returns_replay:
  assumes "distill ex ctx teacher sm dev ids distr start cfg a w = (tr, Inr w')"
  shows "replay ex ctx (get_distillation_box ex teacher sm dev ids distr) dev ids distr cfg a tr w
           = Inr w'"
  using distill_sound [OF assms] by (simp add: explains_def)

lemma distill_writes_by_rule:
  assumes "distill ex ctx teacher sm dev ids distr start cfg a w = (tr, Inr w')"
  shows "epoch_results tr =
           spec_outcomes (is_main_process ctx)
             (case files w (ckpt (student_model cfg)) of None \<Rightarrow> 0 | Some c \<Rightarrow> best_value c)
             (map fst (epoch_results tr))
         \<and> length (epoch_results tr) =
             length (py_range start (num_epochs (get_distillation_box ex teacher sm dev ids distr)))
         \<and> length (filter is_SaveCkpt tr) = length (filter snd (epoch_results tr))"
proof -
  let ?epochs = "py_range start (num_epochs (get_distillation_box ex teacher sm dev ids distr))"
  let ?best = "case files w (ckpt (student_model cfg)) of None \<Rightarrow> 0 | Some c \<Rightarrow> best_value c"
  from distill_Inr [OF assms] obtain vals where
    len: "length vals = length ?epochs"
    and tr: "tr = (if check_if_exists (ckpt (student_model cfg)) w
                   then [LoadCkpt (ckpt (student_model cfg)) None] else [])
                @ spec_calls sm (ckpt (student_model cfg)) ?epochs
                    (spec_outcomes (is_main_process ctx) ?best vals)
                @ (if distr then [Barrier] else []) @ [CleanModules]"
    by blast
  have len': "length (spec_outcomes (is_main_process ctx) ?best vals) = length ?epochs"
    using len by simp
  have res: "epoch_results tr = spec_outcomes (is_main_process ctx) ?best vals"
    unfolding tr by (simp add: epoch_results_spec_calls [OF len'])
  have cnt: "length (filter is_SaveCkpt tr) =
             length (filter snd (spec_outcomes (is_main_process ctx) ?best vals))"
    unfolding tr by (simp add: filter_SaveCkpt_spec_calls [OF len'])
  show ?thesis
    using len by (simp add: res cnt)
qed

lemma distill_calls_in_order:
  assumes "distill ex ctx teacher sm dev ids distr start cfg a w = (tr, Inr w')"
  shows "(\<exists>outcomes.
            length outcomes =
              length (py_range start (num_epochs (get_distillation_box ex teacher sm dev ids distr)))
            \<and> tr = (if check_if_exists (ckpt (student_model cfg)) w
                     then [LoadCkpt (ckpt (student_model cfg)) None] else [])
                    @ spec_calls sm (ckpt (student_model cfg))
                        (py_range start (num_epochs (get_distillation_box ex teacher sm dev ids distr)))
                        outcomes
                    @ (if distr then [Barrier] else []) @ [CleanModules])
         \<and> sorted_wrt (<) (py_range start (num_epochs (get_distillation_box ex teacher sm dev ids distr)))
         \<and> set (py_range start (num_epochs (get_distillation_box ex teacher sm dev ids distr)))
             = {start ..< num_epochs (get_distillation_box ex teacher sm dev ids distr)}"
proof -
  from distill_Inr [OF assms] obtain vals where
    "length vals = length (py_range start (num_epochs (get_distillation_box ex teacher sm dev ids distr)))"
    and "tr = (if check_if_exists (ckpt (student_model cfg)) w
                   then [LoadCkpt (ckpt (student_model cfg)) None] else [])
                @ spec_calls sm (ckpt (student_model cfg))
                    (py_range start (num_epochs (get_distillation_box ex teacher sm dev ids distr)))
                    (spec_outcomes (is_main_process ctx)
                       (case files w (ckpt (student_model cfg)) of None \<Rightarrow> 0 | Some c \<Rightarrow> best_value c) vals)
                @ (if distr then [Barrier] else []) @ [CleanModules]"
    by blast
  then have "\<exists>outcomes.
            length outcomes =
              length (py_range start (num_epochs (get_distillation_box ex teacher sm dev ids distr)))
            \<and> tr = (if check_if_exists (ckpt (student_model cfg)) w
                     then [LoadCkpt (ckpt (student_model cfg)) None] else [])
                    @ spec_calls sm (ckpt (student_model cfg))
                        (py_range start (num_epochs (get_distillation_box ex teacher sm dev ids distr)))
                        outcomes
                    @ (if distr then [Barrier] else []) @ [CleanModules]"
    by (intro exI [of _ "spec_outcomes (is_main_process ctx)
                       (case files w (ckpt (student_model cfg)) of None \<Rightarrow> 0 | Some c \<Rightarrow> best_value c) vals"])
       simp
  moreover have "sorted_wrt (<) (py_range start n)" "set (py_range start n) = {start ..< n}" for n
    by (auto simp: py_range_def)
  ultimately show ?thesis by blast
qed

text \<open>
  Claim C1. In a run of \<^verbatim>\<open>distill\<close> that returns, every epoch has one completed
  validation, and a checkpoint write follows the validation of an epoch if and only if its
  score strictly exceeds the best score at that moment and the process is the main process,
  the score then becoming the best score: the scores and write flags read off the record are
  the ones the spec's rule gives for those scores, from the best score at the start of the run
  (0 without a checkpoint file), and the number of writes is the number of such epochs. The
  recorded writes are the writes made: making the recorded calls one after the other from the
  initial state, \<^verbatim>\<open>save_ckpt\<close> exactly where a write is recorded, gives the state the
  run returns, and when the collaborator leaves the files alone the best score stored at the
  checkpoint path at the end is the one of the last recorded write, or the one stored before
  the run when no write is recorded.
\<close>

theorem checkpoint_written_iff_strictly_better_on_main:
  assumes "distill ex ctx teacher sm dev ids distr start cfg a w = (tr, Inr w')"
  shows "epoch_results tr =
           spec_outcomes (is_main_process ctx)
             (case files w (ckpt (student_model cfg)) of None \<Rightarrow> 0 | Some c \<Rightarrow> best_value c)
             (map fst (epoch_results tr))
         \<and> length (epoch_results tr) =
             length (py_range start (num_epochs (get_distillation_box ex teacher sm dev ids distr)))
         \<and> length (filter is_SaveCkpt tr) = length (filter snd (epoch_results tr))
         \<and> replay ex ctx (get_distillation_box ex teacher sm dev ids distr) dev ids distr cfg a tr w
             = Inr w'
         \<and> (keeps_files (get_distillation_box ex teacher sm dev ids distr) \<longrightarrow>
              map_option best_value (files w' (ckpt (student_model cfg))) =
                stored_best (ckpt (student_model cfg)) tr
                  (map_option best_value (files w (ckpt (student_model cfg)))))"
  using distill_writes_by_rule [OF assms] distill_returns_replay [OF assms]
    replay_stored_best [OF _ distill_returns_replay [OF assms]]
  by simp

theorem checkpoint_written_scenario_witness:
  "epoch_results (fst (distill demo_ex demo_ctx (Module 1) (Module 0) demo_cpu [] False 0 demo_config demo_args demo_world))
     = [(1 / 2, True), (2 / 5, False), (3 / 5, True), (3 / 5, False), (7 / 10, True)]
   \<and> spec_outcomes True 0 [1 / 2, 2 / 5, 3 / 5, 3 / 5, 7 / 10]
     = [(1 / 2, True), (2 / 5, False), (3 / 5, True), (3 / 5, False), (7 / 10, True)]
   \<and> length (filter is_SaveCkpt
       (fst (distill demo_ex demo_ctx (Module 1) (Module 0) demo_cpu [] False 0 demo_config demo_args demo_world))) = 3
   \<and> replay demo_ex demo_ctx demo_box demo_cpu [] False demo_config demo_args
       (fst (distill demo_ex demo_ctx (Module 1) (Module 0) demo_cpu [] False 0 demo_config demo_args demo_world))
       demo_world
     = snd (distill demo_ex demo_ctx (Module 1) (Module 0) demo_cpu [] False 0 demo_config demo_args demo_world)
   \<and> keeps_files demo_box
   \<and> files demo_world ''student.pt'' = None
   \<and> map_option best_value
       (files (projr (snd (distill demo_ex demo_ctx (Module 1) (Module 0) demo_cpu [] False 0 demo_config demo_args demo_world)))
          ''student.pt'')
     = Some (7 / 10)"
proof -
  from demo_run_files obtain w' where
    run: "distill demo_ex demo_ctx (Module 1) (Module 0) demo_cpu [] False 0 demo_config demo_args demo_world
   = ([PreProcess 0, DistillOneEpoch 0, Evaluate (Module 0) (1/2), SaveCkpt (Module 0) (1/2) ''student.pt'', PostProcess,
      PreProcess 1, DistillOneEpoch 1, Evaluate (Module 0) (2/5), PostProcess,
      PreProcess 2, DistillOneEpoch 2, Evaluate (Module 0) (3/5), SaveCkpt (Module 0) (3/5) ''student.pt'', PostProcess,
      PreProcess 3, DistillOneEpoch 3, Evaluate (Module 0) (3/5), PostProcess,
      PreProcess 4, DistillOneEpoch 4, Evaluate (Module 0) (7/10), SaveCkpt (Module 0) (7/10) ''student.pt'', PostProcess,
      CleanModules], Inr w')"
    by blast
  have nofile: "files demo_world ''student.pt'' = None"
    by (simp add: demo_world_def)
  have path: "ckpt (student_model demo_config) = ''student.pt''"
    by (simp add: demo_config_def)
  have is_main: "is_main_process demo_ctx"
    by (simp add: is_main_process_def demo_ctx_def)
  from checkpoint_written_iff_strictly_better_on_main [OF run] keeps_files_demo_box show ?thesis
    unfolding run by (simp add: path nofile is_main)
qed

text \<open>
  Claim C2. Without a file at the student checkpoint path, \<^verbatim>\<open>distill\<close> trains from the
  best score 0 in the unchanged state and raises no load error; with a file, it trains from
  the best score of the stored record, after the record's optimizer and scheduler states have
  been restored into the collaborator's optimizer and learning-rate scheduler.
\<close>

theorem distill_best_score_at_start:
  "distill ex ctx teacher sm dev ids distr start cfg a w =
     (case files w (ckpt (student_model cfg)) of
        None \<Rightarrow>
          distill_training ex ctx (get_distillation_box ex teacher sm dev ids distr)
            sm dev ids distr start cfg a 0 w
      | Some c \<Rightarrow>
          (case distill_training ex ctx (get_distillation_box ex teacher sm dev ids distr)
                  sm dev ids distr start cfg a (best_value c)
                  (w\<lparr>optimizer := ckpt_optimizer c, lr_scheduler := ckpt_lr_scheduler c\<rparr>) of
             (tr, r) \<Rightarrow> (LoadCkpt (ckpt (student_model cfg)) None # tr, r)))
   \<and> distill_resume (ckpt (student_model cfg)) w =
       (case files w (ckpt (student_model cfg)) of
          None \<Rightarrow> ([], Inr (0, w))
        | Some c \<Rightarrow>
            ([LoadCkpt (ckpt (student_model cfg)) None],
             Inr (best_value c,
                  w\<lparr>optimizer := ckpt_optimizer c, lr_scheduler := ckpt_lr_scheduler c\<rparr>)))"
  by (simp add: distill_def Let_def distill_resume_cases split: option.splits prod.splits)

theorem distill_best_score_at_start_witness:
  "distill_resume (ckpt (student_model demo_config)) demo_world = ([], Inr (0, demo_world))
   \<and> distill_resume (ckpt (student_model demo_config)) demo_resume_world
     = ([LoadCkpt ''student.pt'' None],
        Inr (3 / 5, demo_resume_world\<lparr>optimizer := [(''step'', 2)],
                                       lr_scheduler := [(''last_epoch'', 2)]\<rparr>))"
  using distill_best_score_at_start [of demo_ex demo_ctx "Module 1" "Module 0" demo_cpu "[]" False 0 demo_config demo_args demo_world]
        distill_best_score_at_start [of demo_ex demo_ctx "Module 1" "Module 0" demo_cpu "[]" False 0 demo_config demo_args demo_resume_world]
  by (simp add: demo_world_def demo_resume_world_def demo_config_def)

text \<open>
  Claim C3. On a process for which \<^verbatim>\<open>is_main_process()\<close> is false, no execution of
  \<^verbatim>\<open>distill\<close>, whether it returns or an exception ends it and whatever the validation
  scores are, makes a checkpoint write: its record has no write, the recorded calls made one
  after the other from the initial state lead to the state in which the run returns or in
  which the failing call is made, and when the collaborator leaves the files alone the files
  of that state are those of the initial state.
\<close>

theorem non_main_process_never_saves:
  assumes "\<not> is_main_process ctx"
    and "distill ex ctx teacher sm dev ids distr start cfg a w = (tr, r)"
  shows "filter is_SaveCkpt tr = []
         \<and> (\<exists>w1. replay ex ctx (get_distillation_box ex teacher sm dev ids distr) dev ids distr
                     cfg a tr w = Inr w1
                \<and> (case r of
                      Inl e \<Rightarrow>
                        \<exists>ev. replay_call ex ctx (get_distillation_box ex teacher sm dev ids distr)
                               dev ids distr cfg a ev w1 = Inl e
                    | Inr w' \<Rightarrow> w' = w1)
                \<and> (keeps_files (get_distillation_box ex teacher sm dev ids distr) \<longrightarrow>
                      files w1 = files w))"
proof -
  have nosave: "filter is_SaveCkpt tr = []"
    using distill_saves [OF assms(2)] assms(1)
    by (auto simp: filter_empty_conv list_all_iff save_ok_def)
  from explains_prefix [OF distill_sound [OF assms(2)]] obtain w1 where
    rep: "replay ex ctx (get_distillation_box ex teacher sm dev ids distr) dev ids distr
            cfg a tr w = Inr w1"
    and out: "case r of
                Inl e \<Rightarrow>
                  \<exists>ev. replay_call ex ctx (get_distillation_box ex teacher sm dev ids distr)
                         dev ids distr cfg a ev w1 = Inl e
              | Inr w' \<Rightarrow> w' = w1"
    by blast
  have "keeps_files (get_distillation_box ex teacher sm dev ids distr) \<longrightarrow> files w1 = files w"
    using replay_files_unchanged [OF _ nosave rep] by blast
  with nosave rep out show ?thesis by blast
qed

theorem non_main_process_never_saves_witness:
  "\<not> is_main_process demo_ctx_rank1
   \<and> map fst (epoch_results (fst (distill demo_ex demo_ctx_rank1 (Module 1) (DistributedDataParallel (Module 0) [1]) demo_cuda [1] True 3 demo_config demo_args demo_world)))
      = [1 / 2, 2 / 5]
   \<and> filter is_SaveCkpt (fst (distill demo_ex demo_ctx_rank1 (Module 1) (DistributedDataParallel (Module 0) [1]) demo_cuda [1] True 3 demo_config demo_args demo_world)) = []
   \<and> replay demo_ex demo_ctx_rank1 demo_box demo_cuda [1] True demo_config demo_args
       (fst (distill demo_ex demo_ctx_rank1 (Module 1) (DistributedDataParallel (Module 0) [1]) demo_cuda [1] True 3 demo_config demo_args demo_world))
       demo_world
     = snd (distill demo_ex demo_ctx_rank1 (Module 1) (DistributedDataParallel (Module 0) [1]) demo_cuda [1] True 3 demo_config demo_args demo_world)
   \<and> keeps_files demo_box
   \<and> files (projr (snd (distill demo_ex demo_ctx_rank1 (Module 1) (DistributedDataParallel (Module 0) [1]) demo_cuda [1] True 3 demo_config demo_args demo_world)))
     = files demo_world"
proof -
  have nm: "\<not> is_main_process demo_ctx_rank1"
    by (simp add: is_main_process_def demo_ctx_rank1_def)
  from demo_run_rank1_files obtain w' where
    run: "distill demo_ex demo_ctx_rank1 (Module 1) (DistributedDataParallel (Module 0) [1]) demo_cuda [1] True 3 demo_config demo_args demo_world
   = ([PreProcess 3, DistillOneEpoch 3, Evaluate (DistributedDataParallel (Module 0) [1]) (1 / 2), PostProcess,
       PreProcess 4, DistillOneEpoch 4, Evaluate (DistributedDataParallel (Module 0) [1]) (2 / 5), PostProcess,
       Barrier, CleanModules], Inr w')"
    by blast
  from non_main_process_never_saves [OF nm run] nm keeps_files_demo_box show ?thesis
    unfolding run by auto
qed

text \<open>
  Claim C4. A run of \<^verbatim>\<open>distill\<close> that returns has completed, after the load of an
  existing checkpoint, exactly the calls of one epoch for every epoch of
  \<open>[start_epoch, num_epochs)\<close> in increasing order, each epoch being \<^verbatim>\<open>pre_process\<close>,
  one distillation pass, the validation of the student, the checkpoint write if there is one
  and \<^verbatim>\<open>post_process\<close>; then the barrier if the run is distributed, then
  \<^verbatim>\<open>clean_modules\<close>. No epoch is skipped or repeated, and the state the run returns is
  the one that these calls, made in this order from the initial state, lead to.
\<close>

theorem distill_epochs_in_order:
  assumes "distill ex ctx teacher sm dev ids distr start cfg a w = (tr, Inr w')"
  shows "(\<exists>outcomes.
            length outcomes =
              length (py_range start (num_epochs (get_distillation_box ex teacher sm dev ids distr)))
            \<and> tr = (if check_if_exists (ckpt (student_model cfg)) w
                     then [LoadCkpt (ckpt (student_model cfg)) None] else [])
                    @ spec_calls sm (ckpt (student_model cfg))
                        (py_range start (num_epochs (get_distillation_box ex teacher sm dev ids distr)))
                        outcomes
                    @ (if distr then [Barrier] else []) @ [CleanModules])
         \<and> sorted_wrt (<) (py_range start (num_epochs (get_distillation_box ex teacher sm dev ids distr)))
         \<and> set (py_range start (num_epochs (get_distillation_box ex teacher sm dev ids distr)))
             = {start ..< num_epochs (get_distillation_box ex teacher sm dev ids distr)}
         \<and> replay ex ctx (get_distillation_box ex teacher sm dev ids distr) dev ids distr cfg a tr w
             = Inr w'"
  using distill_calls_in_order [OF assms] distill_returns_replay [OF assms] by simp

theorem distill_epochs_in_order_witness:
  "fst (distill demo_logging_ex demo_ctx_rank0 (Module 1) (DistributedDataParallel (Module 0) [0])
          demo_cuda [0] True 3 demo_config demo_args demo_world)
     = spec_calls (DistributedDataParallel (Module 0) [0]) ''student.pt'' [3, 4]
         [(1 / 2, True), (2 / 5, False)]
       @ [Barrier, CleanModules]
   \<and> py_range 3 (num_epochs (get_distillation_box demo_logging_ex (Module 1)
        (DistributedDataParallel (Module 0) [0]) demo_cuda [0] True))
     = [3, 4]
   \<and> replay demo_logging_ex demo_ctx_rank0 demo_logging_box demo_cuda [0] True demo_config demo_args
       (fst (distill demo_logging_ex demo_ctx_rank0 (Module 1) (DistributedDataParallel (Module 0) [0])
          demo_cuda [0] True 3 demo_config demo_args demo_world))
       demo_world
     = snd (distill demo_logging_ex demo_ctx_rank0 (Module 1) (DistributedDataParallel (Module 0) [0])
          demo_cuda [0] True 3 demo_config demo_args demo_world)
   \<and> lr_scheduler (projr (snd (distill demo_logging_ex demo_ctx_rank0 (Module 1)
        (DistributedDataParallel (Module 0) [0]) demo_cuda [0] True 3 demo_config demo_args demo_world)))
     = [(''pre_process'', 3), (''update_params'', 0),
        (''post_process: student in training mode'', 0),
        (''post_process: checkpoint file exists'', 1),
        (''pre_process'', 4), (''update_params'', 0),
        (''post_process: student in training mode'', 0),
        (''post_process: checkpoint file exists'', 1),
        (''clean_modules'', 0)]"
proof -
  from demo_logging_run obtain w' where
    run: "distill demo_logging_ex demo_ctx_rank0 (Module 1) (DistributedDataParallel (Module 0) [0])
           demo_cuda [0] True 3 demo_config demo_args demo_world
   = ([PreProcess 3, DistillOneEpoch 3, Evaluate (DistributedDataParallel (Module 0) [0]) (1 / 2),
       SaveCkpt (Module 0) (1 / 2) ''student.pt'', PostProcess,
       PreProcess 4, DistillOneEpoch 4, Evaluate (DistributedDataParallel (Module 0) [0]) (2 / 5),
       PostProcess, Barrier, CleanModules], Inr w')"
    and log: "lr_scheduler w' =
         [(''pre_process'', 3), (''update_params'', 0),
          (''post_process: student in training mode'', 0),
          (''post_process: checkpoint file exists'', 1),
          (''pre_process'', 4), (''update_params'', 0),
          (''post_process: student in training mode'', 0),
          (''post_process: checkpoint file exists'', 1),
          (''clean_modules'', 0)]"
    by blast
  have range: "py_range 3 (num_epochs demo_logging_box) = [3, 4]"
    using demo_py_range_3 by (simp add: demo_logging_box_def demo_box_def)
  from distill_epochs_in_order [OF run] log range show ?thesis
    unfolding run by (simp add: spec_epoch_calls_def)
qed

text \<open>
  Claim C8. Every checkpoint write of \<^verbatim>\<open>distill\<close> saves the student model without its
  wrapper: the model handed to \<^verbatim>\<open>save_ckpt\<close> is the student itself when it is not
  wrapped and the attribute \<^verbatim>\<open>module\<close> of the wrapper when it is, and for a plain
  module the stored model state is the parameters of that module under their own keys. At
  every recorded write the state changes to what \<^verbatim>\<open>save_ckpt\<close> of the unwrapped student
  makes of the state reached by the calls before it, so the record stored at the path holds
  the state of the unwrapped student at that moment; when the collaborator leaves the files
  alone and no later write follows, these are the files of the state the run returns.
\<close>

theorem saved_model_is_unwrapped_student:
  assumes "distill ex ctx teacher sm dev ids distr start cfg a w = (tr, r)"
  shows "(\<forall>ev \<in> set tr. is_SaveCkpt ev \<longrightarrow> saved_model ev = Some (student_model_without_ddp sm))
         \<and> (\<forall>m device_ids. sm = DataParallel m device_ids \<or> sm = DistributedDataParallel m device_ids
               \<longrightarrow> student_model_without_ddp sm = m)
         \<and> (\<forall>i best path w0. student_model_without_ddp sm = Module i \<longrightarrow>
               map_option ckpt_model
                 (files (save_ckpt (student_model_without_ddp sm) best cfg a path w0) path)
               = Some (params (modules w0 i)))
         \<and> (\<exists>w1. replay ex ctx (get_distillation_box ex teacher sm dev ids distr) dev ids distr
                     cfg a tr w = Inr w1
                \<and> (case r of
                      Inl e \<Rightarrow>
                        \<exists>ev. replay_call ex ctx (get_distillation_box ex teacher sm dev ids distr)
                               dev ids distr cfg a ev w1 = Inl e
                    | Inr w' \<Rightarrow> w' = w1))
         \<and> (\<forall>tr1 m best path tr2. tr = tr1 @ SaveCkpt m best path # tr2 \<longrightarrow>
               (\<exists>ws wa. replay ex ctx (get_distillation_box ex teacher sm dev ids distr) dev ids
                          distr cfg a tr1 w = Inr ws
                  \<and> replay ex ctx (get_distillation_box ex teacher sm dev ids distr) dev ids
                          distr cfg a (tr1 @ [SaveCkpt m best path]) w = Inr wa
                  \<and> wa = save_ckpt (student_model_without_ddp sm) best cfg a path ws
                  \<and> map_option ckpt_model (files wa path)
                      = Some (state_dict (student_model_without_ddp sm) ws)
                  \<and> (keeps_files (get_distillation_box ex teacher sm dev ids distr)
                       \<and> filter is_SaveCkpt tr2 = [] \<longrightarrow>
                       (\<forall>w'. r = Inr w' \<longrightarrow> files w' = files wa))))"
proof -
  let ?box = "get_distillation_box ex teacher sm dev ids distr"
  have labels: "\<forall>ev \<in> set tr. is_SaveCkpt ev \<longrightarrow> saved_model ev = Some (student_model_without_ddp sm)"
    using distill_saves [OF assms] by (auto simp: list_all_iff save_ok_def)
  have unwrap: "\<forall>m device_ids. sm = DataParallel m device_ids \<or> sm = DistributedDataParallel m device_ids
               \<longrightarrow> student_model_without_ddp sm = m"
    by auto
  have plain: "\<forall>i best path w0. student_model_without_ddp sm = Module i \<longrightarrow>
               map_option ckpt_model
                 (files (save_ckpt (student_model_without_ddp sm) best cfg a path w0) path)
               = Some (params (modules w0 i))"
    by (simp add: save_ckpt_def)
  from explains_prefix [OF distill_sound [OF assms]] obtain w1 where
    rep: "replay ex ctx ?box dev ids distr cfg a tr w = Inr w1"
    and out: "case r of
                Inl e \<Rightarrow> \<exists>ev. replay_call ex ctx ?box dev ids distr cfg a ev w1 = Inl e
              | Inr w' \<Rightarrow> w' = w1"
    by blast
  have splits: "\<exists>ws wa. replay ex ctx ?box dev ids distr cfg a tr1 w = Inr ws
                  \<and> replay ex ctx ?box dev ids distr cfg a (tr1 @ [SaveCkpt m best path]) w = Inr wa
                  \<and> wa = save_ckpt (student_model_without_ddp sm) best cfg a path ws
                  \<and> map_option ckpt_model (files wa path)
                      = Some (state_dict (student_model_without_ddp sm) ws)
                  \<and> (keeps_files ?box \<and> filter is_SaveCkpt tr2 = [] \<longrightarrow>
                       (\<forall>w'. r = Inr w' \<longrightarrow> files w' = files wa))"
    if tr: "tr = tr1 @ SaveCkpt m best path # tr2" for tr1 m best path tr2
  proof -
    from labels tr have m: "m = student_model_without_ddp sm" by simp
    from rep tr replay_split [of ex ctx ?box dev ids distr cfg a tr1 "SaveCkpt m best path" tr2 w w1]
    obtain ws wa where
      a: "replay ex ctx ?box dev ids distr cfg a tr1 w = Inr ws"
      and b: "replay_call ex ctx ?box dev ids distr cfg a (SaveCkpt m best path) ws = Inr wa"
      and c: "replay ex ctx ?box dev ids distr cfg a tr2 wa = Inr w1"
      by blast
    from b m have wa: "wa = save_ckpt (student_model_without_ddp sm) best cfg a path ws" by simp
    have "replay ex ctx ?box dev ids distr cfg a (tr1 @ [SaveCkpt m best path]) w = Inr wa"
      using a b by (simp add: replay_append)
    moreover have "map_option ckpt_model (files wa path)
                      = Some (state_dict (student_model_without_ddp sm) ws)"
      using wa by (simp add: save_ckpt_def)
    moreover have "keeps_files ?box \<and> filter is_SaveCkpt tr2 = [] \<longrightarrow>
                       (\<forall>w'. r = Inr w' \<longrightarrow> files w' = files wa)"
      using replay_files_unchanged [OF _ _ c] out by auto
    ultimately show ?thesis using a wa by blast
  qed
  from labels unwrap plain rep out splits show ?thesis by blast
qed

theorem saved_model_is_unwrapped_student_witness:
  "filter is_SaveCkpt (fst (distill demo_ex demo_ctx_rank0 (Module 1) (DistributedDataParallel (Module 0) [0]) demo_cuda [0] True 3 demo_config demo_args demo_world))
     = [SaveCkpt (Module 0) (1 / 2) ''student.pt'']
   \<and> student_model_without_ddp (DistributedDataParallel (Module 0) [0]) = Module 0
   \<and> replay demo_ex demo_ctx_rank0 demo_box demo_cuda [0] True demo_config demo_args
       (fst (distill demo_ex demo_ctx_rank0 (Module 1) (DistributedDataParallel (Module 0) [0]) demo_cuda [0] True 3 demo_config demo_args demo_world))
       demo_world
     = snd (distill demo_ex demo_ctx_rank0 (Module 1) (DistributedDataParallel (Module 0) [0]) demo_cuda [0] True 3 demo_config demo_args demo_world)
   \<and> keeps_files demo_box
   \<and> map_option ckpt_model (files (projr (snd (distill demo_ex demo_ctx_rank0 (Module 1) (DistributedDataParallel (Module 0) [0]) demo_cuda [0] True 3 demo_config demo_args demo_world))) ''student.pt'')
     = Some [(''weight'', 1 / 2)]
   \<and> state_dict (DistributedDataParallel (Module 0) [0])
        (projr (snd (distill demo_ex demo_ctx_rank0 (Module 1) (DistributedDataParallel (Module 0) [0]) demo_cuda [0] True 3 demo_config demo_args demo_world)))
     = [(''module.weight'', 2 / 5)]"
proof -
  from demo_run_rank0 obtain w' where
    run: "distill demo_ex demo_ctx_rank0 (Module 1) (DistributedDataParallel (Module 0) [0]) demo_cuda [0] True 3 demo_config demo_args demo_world
   = ([PreProcess 3, DistillOneEpoch 3, Evaluate (DistributedDataParallel (Module 0) [0]) (1 / 2),
       SaveCkpt (Module 0) (1 / 2) ''student.pt'', PostProcess,
       PreProcess 4, DistillOneEpoch 4, Evaluate (DistributedDataParallel (Module 0) [0]) (2 / 5), PostProcess,
       Barrier, CleanModules], Inr w')"
    and stored: "map_option ckpt_model (files w' ''student.pt'') = Some [(''weight'', 1 / 2)]"
    and params: "params (modules w' 0) = [(''weight'', 2 / 5)]"
    by blast
  from saved_model_is_unwrapped_student [OF run] have
    rep: "replay demo_ex demo_ctx_rank0 demo_box demo_cuda [0] True demo_config demo_args
            [PreProcess 3, DistillOneEpoch 3, Evaluate (DistributedDataParallel (Module 0) [0]) (1 / 2),
             SaveCkpt (Module 0) (1 / 2) ''student.pt'', PostProcess,
             PreProcess 4, DistillOneEpoch 4, Evaluate (DistributedDataParallel (Module 0) [0]) (2 / 5),
             PostProcess, Barrier, CleanModules] demo_world = Inr w'"
    by (elim conjE exE) (simp del: replay.simps)
  from rep stored params keeps_files_demo_box show ?thesis
    unfolding run by (simp del: replay.simps)
qed



end
